theory Spec2Isabelle
  imports Complex_Main "HOL-Library.Log_Nat"
begin

section \<open>Python values used by the extractor\<close>

text \<open>
  The extractor of \<^verbatim>\<open>data_pipeline.py\<close> is string processing over a parsed document.
  A Python string is the list of its code points, and a character is a code point, an
  integer. \<open>str\<close> turns an ASCII literal into such a string. The tables of whitespace
  and of decimal digits are those of the Unicode database of Python 3.11.
\<close>

subsection \<open>Exceptions\<close>

datatype pyexc = ValueError | JSONDecodeError | RecursionError | AttributeError

subsection \<open>Strings\<close>

type_synonym pystr = "int list"

definition str :: "string \<Rightarrow> pystr" where
  "str s = map of_char s"

text \<open>Names for the characters that the source mentions.\<close>

abbreviation SPACE :: int where "SPACE \<equiv> 32"
abbreviation QUOTE :: int where "QUOTE \<equiv> 34"
abbreviation DOLLAR :: int where "DOLLAR \<equiv> 36"
abbreviation PLUS :: int where "PLUS \<equiv> 43"
abbreviation COMMA :: int where "COMMA \<equiv> 44"
abbreviation MINUS :: int where "MINUS \<equiv> 45"
abbreviation DOT :: int where "DOT \<equiv> 46"
abbreviation ZERO :: int where "ZERO \<equiv> 48"
abbreviation QUESTION :: int where "QUESTION \<equiv> 63"
abbreviation LETTER_R :: int where "LETTER_R \<equiv> 82"
abbreviation LETTER_X :: int where "LETTER_X \<equiv> 88"
abbreviation UNDERSCORE :: int where "UNDERSCORE \<equiv> 95"
abbreviation LETTER_e :: int where "LETTER_e \<equiv> 101"
abbreviation EN_DASH :: int where "EN_DASH \<equiv> 0x2013"

text \<open>
  Whitespace as \<^verbatim>\<open>str.isspace\<close>, \<^verbatim>\<open>str.strip\<close> and the class \<^verbatim>\<open>\s\<close> of \<^verbatim>\<open>re\<close>
  understand it.
\<close>

definition isspace :: "int \<Rightarrow> bool" where
  "isspace c = (c \<in> set
     [0x9, 0xA, 0xB, 0xC, 0xD, 0x1C, 0x1D, 0x1E, 0x1F, 0x20, 0x85, 0xA0, 0x1680, 0x2000,
      0x2001, 0x2002, 0x2003, 0x2004, 0x2005, 0x2006, 0x2007, 0x2008, 0x2009, 0x200A,
      0x2028, 0x2029, 0x202F, 0x205F, 0x3000])"

text \<open>
  The decimal digits of Unicode come in runs of ten, from the digit zero of a script
  to its digit nine. These are the zeros. \<open>decimal c\<close> is the value of the digit \<open>c\<close>;
  \<open>isdecimal\<close> is \<^verbatim>\<open>str.isdecimal\<close> and the class \<^verbatim>\<open>\d\<close> of \<^verbatim>\<open>re\<close>.
\<close>

definition decimal_zeros :: "int list" where
  "decimal_zeros =
     [0x30, 0x660, 0x6F0, 0x7C0, 0x966, 0x9E6, 0xA66, 0xAE6, 0xB66, 0xBE6, 0xC66, 0xCE6,
      0xD66, 0xDE6, 0xE50, 0xED0, 0xF20, 0x1040, 0x1090, 0x17E0, 0x1810, 0x1946, 0x19D0,
      0x1A80, 0x1A90, 0x1B50, 0x1BB0, 0x1C40, 0x1C50, 0xA620, 0xA8D0, 0xA900, 0xA9D0,
      0xA9F0, 0xAA50, 0xABF0, 0xFF10, 0x104A0, 0x10D30, 0x11066, 0x110F0, 0x11136, 0x111D0,
      0x112F0, 0x11450, 0x114D0, 0x11650, 0x116C0, 0x11730, 0x118E0, 0x11950, 0x11C50,
      0x11D50, 0x11DA0, 0x16A60, 0x16AC0, 0x16B50, 0x1D7CE, 0x1D7D8, 0x1D7E2, 0x1D7EC,
      0x1D7F6, 0x1E140, 0x1E2F0, 0x1E950, 0x1FBF0]"

definition decimal :: "int \<Rightarrow> int option" where
  "decimal c = (case List.find (\<lambda>z. z \<le> c \<and> c \<le> z + 9) decimal_zeros of
                  None \<Rightarrow> None
                | Some z \<Rightarrow> Some (c - z))"

definition isdecimal :: "int \<Rightarrow> bool" where
  "isdecimal c = (decimal c \<noteq> None)"

text \<open>The ASCII digits, and the lower case of an ASCII letter.\<close>

definition isdigit :: "int \<Rightarrow> bool" where
  "isdigit c = (48 \<le> c \<and> c \<le> 57)"

definition digit_val :: "int \<Rightarrow> int" where
  "digit_val c = c - 48"

definition digit_char :: "int \<Rightarrow> int" where
  "digit_char d = 48 + d"

definition lower :: "int \<Rightarrow> int" where
  "lower c = (if 65 \<le> c \<and> c \<le> 90 then c + 32 else c)"

text \<open>\<^verbatim>\<open>s.strip()\<close>: whitespace removed at both ends.\<close>

definition strip :: "pystr \<Rightarrow> pystr" where
  "strip s = rev (dropWhile isspace (rev (dropWhile isspace s)))"

text \<open>\<^verbatim>\<open>old in s\<close> and \<^verbatim>\<open>s.split(old)[0]\<close> for a non-empty \<open>old\<close>.\<close>

definition startswith :: "pystr \<Rightarrow> pystr \<Rightarrow> bool" where
  "startswith s old = (take (length old) s = old)"

fun contains :: "pystr \<Rightarrow> pystr \<Rightarrow> bool" where
  "contains [] old = (old = [])"
| "contains (c # cs) old = (startswith (c # cs) old \<or> contains cs old)"

fun split_head :: "pystr \<Rightarrow> pystr \<Rightarrow> pystr" where
  "split_head old [] = []"
| "split_head old (c # cs) = (if startswith (c # cs) old then [] else c # split_head old cs)"

text \<open>
  \<^verbatim>\<open>s.replace(old, new)\<close>: every occurrence, left to right, without overlap. The source
  only calls it with a non-empty \<open>old\<close>; with an empty one the model returns \<open>s\<close>.
\<close>

function replace :: "pystr \<Rightarrow> pystr \<Rightarrow> pystr \<Rightarrow> pystr" where
  "replace old new [] = []"
| "replace old new (c # cs) =
     (if old \<noteq> [] \<and> startswith (c # cs) old
      then new @ replace old new (drop (length old) (c # cs))
      else c # replace old new cs)"
  by pat_completeness auto
termination
  by (relation "measure (\<lambda>(old, new, s). length s)") auto

text \<open>A string between double quotes.\<close>

definition quoted :: "pystr \<Rightarrow> pystr" where
  "quoted s = [QUOTE] @ s @ [QUOTE]"

text \<open>\<^verbatim>\<open>sep.join(parts)\<close>.\<close>

fun join :: "pystr \<Rightarrow> pystr list \<Rightarrow> pystr" where
  "join sep [] = []"
| "join sep [x] = x"
| "join sep (x # y # ys) = x @ sep @ join sep (y # ys)"

subsection \<open>Floats\<close>

text \<open>
  A Python \<^verbatim>\<open>float\<close> is an IEEE binary64 value: a sign and either a finite magnitude
  (a rational), an infinity, or a NaN. The sign flag is \<open>True\<close> for negative values
  (so \<^verbatim>\<open>-0.0\<close> is \<open>Finite True 0\<close>).
\<close>

datatype pyfloat = Finite bool rat | Infinite bool | NaN

definition pow2 :: "int \<Rightarrow> rat" where
  "pow2 e = (if 0 \<le> e then 2 ^ nat e else 1 / 2 ^ nat (- e))"

definition pow10 :: "int \<Rightarrow> rat" where
  "pow10 e = (if 0 \<le> e then 10 ^ nat e else 1 / 10 ^ nat (- e))"

text \<open>Rounding to the nearest integer, ties to the even one.\<close>

definition round_half_even :: "rat \<Rightarrow> int" where
  "round_half_even x =
     (let f = \<lfloor>x\<rfloor>; d = x - of_int f
      in if d < 1 / 2 then f else if 1 / 2 < d then f + 1
         else if even f then f else f + 1)"

text \<open>The binary exponent of a positive rational: \<open>pow2 e \<le> x < pow2 (e + 1)\<close>.\<close>

definition ilog2 :: "rat \<Rightarrow> int" where
  "ilog2 x = (let k = bitlen (fst (quotient_of x)) - bitlen (snd (quotient_of x))
              in if pow2 k \<le> x then k else k - 1)"

text \<open>
  The binary64 value nearest to a magnitude \<open>q \<ge> 0\<close> (ties to even, 53 bits of
  significand, subnormals below \<open>pow2 (-1022)\<close>, overflow to infinity), as
  \<^verbatim>\<open>float(str)\<close> computes it.
\<close>

definition float_of_rat :: "bool \<Rightarrow> rat \<Rightarrow> pyfloat" where
  "float_of_rat neg q =
     (if q \<le> 0 then Finite neg 0
      else let e = max (ilog2 q) (- 1022);
               u = pow2 (e - 52);
               r = of_int (round_half_even (q / u)) * u
           in if pow2 1024 \<le> r then Infinite neg else Finite neg r)"

text \<open>Python's \<^verbatim>\<open>==\<close> on floats, and on optional floats (\<^verbatim>\<open>None == None\<close>).\<close>

fun float_eq :: "pyfloat \<Rightarrow> pyfloat \<Rightarrow> bool" where
  "float_eq (Finite s q) (Finite s' q') = (q = q' \<and> (s = s' \<or> q = 0))"
| "float_eq (Infinite s) (Infinite s') = (s = s')"
| "float_eq _ _ = False"

fun opt_float_eq :: "pyfloat option \<Rightarrow> pyfloat option \<Rightarrow> bool" where
  "opt_float_eq None None = True"
| "opt_float_eq (Some a) (Some b) = float_eq a b"
| "opt_float_eq _ _ = False"

subsubsection \<open>\<^verbatim>\<open>float(s)\<close>\<close>

text \<open>
  \<^verbatim>\<open>float\<close> on a string first turns it into ASCII: a character below 127 stays,
  any other whitespace becomes a space, any other decimal digit becomes the ASCII
  digit of its value, and anything else becomes a question mark, which no numeral
  contains. It then removes the whitespace of C (space, tab, line feed, vertical tab,
  form feed, carriage return) at both ends and reads an optional sign followed by
  \<^verbatim>\<open>inf\<close>, \<^verbatim>\<open>infinity\<close> or \<^verbatim>\<open>nan\<close> in any case, or by a decimal numeral with
  optional fraction and exponent, where single underscores may separate digits.
  Anything else raises \<^verbatim>\<open>ValueError\<close>.
\<close>

definition to_ascii :: "int \<Rightarrow> int" where
  "to_ascii c =
     (if c < 127 then c
      else if isspace c then SPACE
      else case decimal c of Some d \<Rightarrow> ZERO + d | None \<Rightarrow> QUESTION)"

definition c_isspace :: "int \<Rightarrow> bool" where
  "c_isspace c = (c \<in> set [0x09, 0x0A, 0x0B, 0x0C, 0x0D, 0x20])"

definition c_strip :: "pystr \<Rightarrow> pystr" where
  "c_strip s = rev (dropWhile c_isspace (rev (dropWhile c_isspace s)))"

text \<open>A digit part after its first digit: the digits read and the rest of the input.\<close>

fun digitpart_rest :: "pystr \<Rightarrow> pystr \<times> pystr" where
  "digitpart_rest [] = ([], [])"
| "digitpart_rest [c] = (if isdigit c then ([c], []) else ([], [c]))"
| "digitpart_rest (c # d # cs) =
     (if isdigit c then (let (ds, r) = digitpart_rest (d # cs) in (c # ds, r))
      else if c = UNDERSCORE \<and> isdigit d then (let (ds, r) = digitpart_rest cs in (d # ds, r))
      else ([], c # d # cs))"

definition digitpart :: "pystr \<Rightarrow> (pystr \<times> pystr) option" where
  "digitpart s = (case s of [] \<Rightarrow> None
                  | c # cs \<Rightarrow> if isdigit c
                             then (let (ds, r) = digitpart_rest cs in Some (c # ds, r))
                             else None)"

definition int_of_digits :: "pystr \<Rightarrow> int" where
  "int_of_digits ds = foldl (\<lambda>n c. 10 * n + digit_val c) 0 ds"

text \<open>An optional sign: whether it is negative, and the rest.\<close>

definition take_sign :: "pystr \<Rightarrow> bool \<times> pystr" where
  "take_sign s = (case s of [] \<Rightarrow> (False, [])
                  | c # cs \<Rightarrow> if c = MINUS then (True, cs)
                             else if c = PLUS then (False, cs) else (False, c # cs))"

text \<open>The exponent part: \<open>Some 0\<close> when absent, \<open>None\<close> when malformed or followed by junk.\<close>

definition exponent_part :: "pystr \<Rightarrow> int option" where
  "exponent_part s =
     (case s of [] \<Rightarrow> Some 0
      | c # cs \<Rightarrow>
          if lower c = LETTER_e
          then (let (neg, r) = take_sign cs
                in case digitpart r of
                     Some (ds, []) \<Rightarrow> Some (if neg then - int_of_digits ds else int_of_digits ds)
                   | _ \<Rightarrow> None)
          else None)"

text \<open>The mantissa: its digits with the point removed, the number of fraction digits, the rest.\<close>

definition mantissa_part :: "pystr \<Rightarrow> (pystr \<times> nat \<times> pystr) option" where
  "mantissa_part s =
     (case digitpart s of
        Some (ds, r) \<Rightarrow>
          (case r of
             c # r' \<Rightarrow>
               if c = DOT
               then (case digitpart r' of
                       Some (fs, r'') \<Rightarrow> Some (ds @ fs, length fs, r'')
                     | None \<Rightarrow> Some (ds, 0, r'))
               else Some (ds, 0, r)
           | [] \<Rightarrow> Some (ds, 0, []))
      | None \<Rightarrow>
          (case s of
             c # r' \<Rightarrow>
               if c = DOT
               then (case digitpart r' of
                       Some (fs, r'') \<Rightarrow> Some (fs, length fs, r'')
                     | None \<Rightarrow> None)
               else None
           | [] \<Rightarrow> None))"

definition py_float :: "pystr \<Rightarrow> pyexc + pyfloat" where
  "py_float s =
     (let (neg, body) = take_sign (c_strip (map to_ascii s)); word = map lower body
      in if word = str ''inf'' \<or> word = str ''infinity'' then Inr (Infinite neg)
         else if word = str ''nan'' then Inr NaN
         else case mantissa_part body of
                None \<Rightarrow> Inl ValueError
              | Some (ds, k, r) \<Rightarrow>
                  (case exponent_part r of
                     None \<Rightarrow> Inl ValueError
                   | Some e \<Rightarrow>
                       Inr (float_of_rat neg (of_int (int_of_digits ds) * pow10 (e - int k)))))"

subsubsection \<open>Formatting with \<^verbatim>\<open>,.2f\<close>\<close>

function str_int :: "int \<Rightarrow> pystr" where
  "str_int n = (if n < 10 then [digit_char n] else str_int (n div 10) @ [digit_char (n mod 10)])"
  by pat_completeness auto
termination
  by (relation "measure nat") auto

declare str_int.simps [simp del]

definition pad3 :: "int \<Rightarrow> pystr" where
  "pad3 n = [digit_char (n div 100 mod 10), digit_char (n div 10 mod 10), digit_char (n mod 10)]"

definition pad2 :: "int \<Rightarrow> pystr" where
  "pad2 n = [digit_char (n div 10 mod 10), digit_char (n mod 10)]"

text \<open>The integer part with a comma between groups of three digits.\<close>

function group_thousands :: "int \<Rightarrow> pystr" where
  "group_thousands n =
     (if n < 1000 then str_int n
      else group_thousands (n div 1000) @ [COMMA] @ pad3 (n mod 1000))"
  by pat_completeness auto
termination
  by (relation "measure nat") auto

declare group_thousands.simps [simp del]

text \<open>The number of hundredths a finite magnitude is rounded to.\<close>

definition cents :: "rat \<Rightarrow> int" where
  "cents q = round_half_even (\<bar>q\<bar> * 100)"

text \<open>\<^verbatim>\<open>f"{val:,.2f}"\<close>.\<close>

fun format_comma_2f :: "pyfloat \<Rightarrow> pystr" where
  "format_comma_2f NaN = str ''nan''"
| "format_comma_2f (Infinite s) = (if s then str ''-inf'' else str ''inf'')"
| "format_comma_2f (Finite s q) =
     (if s then [MINUS] else []) @ group_thousands (cents q div 100) @ [DOT]
       @ pad2 (cents q mod 100)"

subsection \<open>Regular expressions\<close>

text \<open>
  The fragment of \<^verbatim>\<open>re\<close> that \<^verbatim>\<open>BR_PRICE_RE\<close> uses: character classes, sequencing and
  greedy bounded or unbounded repetition, matched by backtracking. The pattern is a
  pattern on text, so that its classes are those of Unicode. \<open>rmatch r s\<close> lists,
  in the order in which the backtracking matcher tries them, the rests of \<open>s\<close> after
  each way of matching \<open>r\<close> at the head of \<open>s\<close>.
\<close>

datatype re = Atom "int \<Rightarrow> bool" | Cat re re | Rep nat "nat option" re

text \<open>
  Greedy repetition of a matcher \<open>f\<close>, at least \<open>lo\<close> and at most \<open>hi\<close> times: one
  more iteration is tried before stopping. Every iteration must consume input, which
  bounds the number of iterations by the length of the text.
\<close>

fun rep :: "(pystr \<Rightarrow> pystr list) \<Rightarrow> nat \<Rightarrow> nat \<Rightarrow> nat option \<Rightarrow> pystr \<Rightarrow> pystr list" where
  "rep f 0 lo hi s = (if lo = 0 then [s] else [])"
| "rep f (Suc fuel) lo hi s =
     (if hi = Some 0 then []
      else concat (map (\<lambda>s'. if length s' < length s
                               then rep f fuel (lo - 1) (map_option (\<lambda>h. h - 1) hi) s'
                               else [])
                       (f s)))
     @ (if lo = 0 then [s] else [])"

primrec rmatch :: "re \<Rightarrow> pystr \<Rightarrow> pystr list" where
  "rmatch (Atom p) s = (case s of [] \<Rightarrow> [] | c # cs \<Rightarrow> if p c then [cs] else [])"
| "rmatch (Cat a b) s = concat (map (rmatch b) (rmatch a s))"
| "rmatch (Rep lo hi r) s = rep (rmatch r) (length s) lo hi s"

text \<open>The way of matching \<open>r\<close> at the head of \<open>s\<close> that is tried first leaves \<open>t\<close>.\<close>

definition leaves :: "re \<Rightarrow> pystr \<Rightarrow> pystr \<Rightarrow> bool" where
  "leaves r s t = (case rmatch r s of [] \<Rightarrow> False | x # xs \<Rightarrow> x = t)"

text \<open>Some match of \<open>r\<close> starts at position \<open>i\<close> of \<open>s\<close>.\<close>

definition matches_at :: "re \<Rightarrow> pystr \<Rightarrow> nat \<Rightarrow> bool" where
  "matches_at r s i = (rmatch r (drop i s) \<noteq> [])"

text \<open>\<^verbatim>\<open>pattern.search(s)\<close> followed by \<^verbatim>\<open>m.group(0)\<close>: the leftmost match.\<close>

fun search :: "re \<Rightarrow> pystr \<Rightarrow> pystr option" where
  "search r [] = (case rmatch r [] of [] \<Rightarrow> None | rest # _ \<Rightarrow> Some [])"
| "search r (c # cs) =
     (case rmatch r (c # cs) of
        [] \<Rightarrow> search r cs
      | rest # _ \<Rightarrow> Some (take (length (c # cs) - length rest) (c # cs)))"

subsection \<open>JSON values\<close>

text \<open>
  What \<^verbatim>\<open>json.loads\<close> returns. A dictionary is the list of its items; \<^verbatim>\<open>None\<close> is
  \<open>JNull\<close>. The decoder itself belongs to the standard library: the functions below
  take it as the parameter \<open>loads\<close>, which returns the value or the exception raised.
\<close>

datatype json = JNull | JBool bool | JInt int | JFloat pyfloat | JStr pystr
  | JList "json list" | JDict "(pystr \<times> json) list"

type_synonym jdict = "(pystr \<times> json) list"

type_synonym json_decoder = "pystr \<Rightarrow> pyexc + json"

text \<open>\<^verbatim>\<open>d.get(k)\<close>, with \<^verbatim>\<open>None\<close> for a missing key.\<close>

definition dict_get :: "jdict \<Rightarrow> pystr \<Rightarrow> json" where
  "dict_get d k = (case map_of d k of None \<Rightarrow> JNull | Some v \<Rightarrow> v)"

text \<open>Truth value of a decoded value in a condition.\<close>

fun truthy :: "json \<Rightarrow> bool" where
  "truthy JNull = False"
| "truthy (JBool b) = b"
| "truthy (JInt i) = (i \<noteq> 0)"
| "truthy (JFloat (Finite s q)) = (q \<noteq> 0)"
| "truthy (JFloat _) = True"
| "truthy (JStr s) = (s \<noteq> [])"
| "truthy (JList xs) = (xs \<noteq> [])"
| "truthy (JDict d) = (d \<noteq> [])"

subsection \<open>Parsed documents\<close>

text \<open>
  A \<^verbatim>\<open>BeautifulSoup\<close> tree: a tag has a name, a dictionary of attributes and children;
  a string has the class the tree builder gave it. The document object is itself a tag.
  The HTML parser belongs to the library: \<open>parse_product\<close> takes it as a parameter.
\<close>

datatype string_class = NavigableString | CData | Comment | Script | Stylesheet
  | TemplateString | RubyTextString | RubyParenthesisString | Declaration | Doctype
  | ProcessingInstruction

datatype element = Tag pystr "(pystr \<times> pystr) list" "element list"
  | Str string_class pystr


text \<open>All nodes below an element, in document order.\<close>

fun descendants :: "element \<Rightarrow> element list" where
  "descendants (Tag n a cs) = concat (map (\<lambda>c. c # descendants c) cs)"
| "descendants (Str k s) = []"

text \<open>\<^verbatim>\<open>tag.get(key)\<close>.\<close>

fun get :: "element \<Rightarrow> pystr \<Rightarrow> pystr option" where
  "get (Tag n a cs) k = map_of a k"
| "get (Str c s) k = None"

text \<open>\<^verbatim>\<open>soup.find_all(name, attrs)\<close> and \<^verbatim>\<open>soup.find(name, attrs)\<close>.\<close>

fun matches_tag :: "pystr \<Rightarrow> (pystr \<times> pystr) list \<Rightarrow> element \<Rightarrow> bool" where
  "matches_tag name attrs (Tag n a cs) =
     (n = name \<and> list_all (\<lambda>(k, v). map_of a k = Some v) attrs)"
| "matches_tag name attrs (Str c s) = False"

definition find_all :: "element \<Rightarrow> pystr \<Rightarrow> (pystr \<times> pystr) list \<Rightarrow> element list" where
  "find_all soup name attrs = filter (matches_tag name attrs) (descendants soup)"

definition find :: "element \<Rightarrow> pystr \<Rightarrow> (pystr \<times> pystr) list \<Rightarrow> element option" where
  "find soup name attrs = List.find (matches_tag name attrs) (descendants soup)"

text \<open>\<^verbatim>\<open>soup.select_one('[key="value"]')\<close>: the first tag with that attribute value.\<close>

fun has_attr :: "pystr \<Rightarrow> pystr \<Rightarrow> element \<Rightarrow> bool" where
  "has_attr k v (Tag n a cs) = (map_of a k = Some v)"
| "has_attr k v (Str c s) = False"

definition select_one_attr :: "element \<Rightarrow> pystr \<Rightarrow> pystr \<Rightarrow> element option" where
  "select_one_attr soup k v = List.find (has_attr k v) (descendants soup)"

text \<open>\<^verbatim>\<open>tag.string\<close>: the single string below a chain of only children.\<close>

fun dot_string :: "element \<Rightarrow> pystr option" where
  "dot_string (Str c s) = Some s"
| "dot_string (Tag n a [c]) = dot_string c"
| "dot_string (Tag n a cs) = None"

text \<open>
  \<^verbatim>\<open>tag.get_text(sep, strip=...)\<close>: the strings below the tag whose class is one the
  tag finds interesting (script, style and template tags keep their own class of
  strings; every other tag keeps plain text and CDATA), stripped and without the
  empty ones when \<open>strip\<close> is set, joined by \<open>sep\<close>.
\<close>

fun interesting_string_types :: "element \<Rightarrow> string_class list" where
  "interesting_string_types (Tag n a cs) =
     (if n = str ''script'' then [Script]
      else if n = str ''style'' then [Stylesheet]
      else if n = str ''template'' then [TemplateString]
      else if n = str ''rt'' then [RubyTextString]
      else if n = str ''rp'' then [RubyParenthesisString]
      else [NavigableString, CData])"
| "interesting_string_types (Str c s) = [NavigableString, CData]"

fun strings_of :: "string_class list \<Rightarrow> element \<Rightarrow> pystr list" where
  "strings_of types (Str c s) = (if c \<in> set types then [s] else [])"
| "strings_of types (Tag n a cs) = []"

definition all_strings :: "element \<Rightarrow> bool \<Rightarrow> pystr list" where
  "all_strings e strp =
     (let raw = concat (map (strings_of (interesting_string_types e)) (descendants e))
      in if strp then filter (\<lambda>s. s \<noteq> []) (map strip raw) else raw)"

definition get_text :: "element \<Rightarrow> pystr \<Rightarrow> bool \<Rightarrow> pystr" where
  "get_text e sep strp = join sep (all_strings e strp)"

text \<open>
  The parser reads the content of a \<^verbatim>\<open>script\<close> element as raw text, not as markup: in
  the tree it builds, such an element has no child or one string. \<open>holds_raw_text\<close>
  describes these elements, and also those with several strings of the class \<open>Script\<close>.
\<close>

fun is_string :: "element \<Rightarrow> bool" where
  "is_string (Str k s) = True"
| "is_string (Tag n a cs) = False"

fun is_script_string :: "element \<Rightarrow> bool" where
  "is_script_string (Str k s) = (k = Script)"
| "is_script_string (Tag n a cs) = False"

fun holds_raw_text :: "element \<Rightarrow> bool" where
  "holds_raw_text (Tag n a cs) =
     (list_all is_string cs \<and> (length cs \<le> 1 \<or> list_all is_script_string cs))"
| "holds_raw_text (Str k s) = False"

section \<open>The extractor\<close>

subsection \<open>Value parser\<close>

text \<open>
  \<^verbatim>\<open>BR_PRICE_RE = re.compile(r"R\$\s*\d{1,3}(?:\.\d{3})*,\d{2}", re.IGNORECASE)\<close>
\<close>

definition lit :: "int \<Rightarrow> re" where
  "lit a = Atom (\<lambda>c. c = a)"

definition lit_ignorecase :: "int \<Rightarrow> re" where
  "lit_ignorecase a = Atom (\<lambda>c. lower c = lower a)"

definition BR_PRICE_RE :: re where
  "BR_PRICE_RE =
     Cat (lit_ignorecase LETTER_R)
    (Cat (lit DOLLAR)
    (Cat (Rep 0 None (Atom isspace))
    (Cat (Rep 1 (Some 3) (Atom isdecimal))
    (Cat (Rep 0 None (Cat (lit DOT) (Rep 3 (Some 3) (Atom isdecimal))))
    (Cat (lit COMMA)
         (Rep 2 (Some 2) (Atom isdecimal)))))))"

text \<open>
  \<^verbatim>\<open>f"R$ {val:,.2f}".replace(",", "X").replace(".", ",").replace("X", ".")\<close>
\<close>

definition fmt_brl :: "pyfloat \<Rightarrow> pystr" where
  "fmt_brl val =
     replace (str ''X'') (str ''.'')
       (replace (str ''.'') (str '','')
          (replace (str '','') (str ''X'') (str ''R$ '' @ format_comma_2f val)))"

text \<open>
  The first match of the pattern in the text, read as a number. Only \<^verbatim>\<open>ValueError\<close>
  is caught.
\<close>

definition parse_brl_price_text_to_float :: "pystr \<Rightarrow> pyexc + pyfloat option" where
  "parse_brl_price_text_to_float text =
     (if text = [] then Inr None
      else case search BR_PRICE_RE text of
             None \<Rightarrow> Inr None
           | Some raw \<Rightarrow>
               (let num = strip (replace (str ''R$'') [] raw);
                    num = replace (str '','') (str ''.'') (replace (str ''.'') [] num)
                in case py_float num of
                     Inr v \<Rightarrow> Inr (Some v)
                   | Inl e \<Rightarrow> if e = ValueError then Inr None else Inl e))"

text \<open>\<^verbatim>\<open>_json_loads_flex\<close>: any exception of the decoder becomes \<^verbatim>\<open>None\<close>.\<close>

definition json_loads_flex :: "json_decoder \<Rightarrow> pystr \<Rightarrow> json" where
  "json_loads_flex loads s = (case loads s of Inl e \<Rightarrow> JNull | Inr data \<Rightarrow> data)"

text \<open>\<^verbatim>\<open>[x for x in data if isinstance(x, dict)]\<close>\<close>

fun dicts_in :: "json list \<Rightarrow> jdict list" where
  "dicts_in [] = []"
| "dicts_in (JDict d # xs) = d # dicts_in xs"
| "dicts_in (x # xs) = dicts_in xs"

text \<open>\<^verbatim>\<open>(tag.string or tag.text or "").strip()\<close>\<close>

definition script_text :: "element \<Rightarrow> pystr" where
  "script_text tag =
     strip (case dot_string tag of
              Some s \<Rightarrow> if s \<noteq> [] then s else get_text tag [] False
            | None \<Rightarrow> get_text tag [] False)"

text \<open>The loop of \<^verbatim>\<open>_json_ld_blocks\<close> over the script tags, with the list it builds.\<close>

fun json_ld_loop :: "json_decoder \<Rightarrow> element list \<Rightarrow> jdict list \<Rightarrow> jdict list" where
  "json_ld_loop loads [] blocks = blocks"
| "json_ld_loop loads (tag # tags) blocks =
     (let txt = script_text tag
      in if txt = [] then json_ld_loop loads tags blocks
         else (case json_loads_flex loads txt of
                 JDict d \<Rightarrow> json_ld_loop loads tags (blocks @ [d])
               | JList xs \<Rightarrow> json_ld_loop loads tags (blocks @ dicts_in xs)
               | _ \<Rightarrow> json_ld_loop loads tags blocks))"

definition json_ld_blocks :: "json_decoder \<Rightarrow> element \<Rightarrow> jdict list" where
  "json_ld_blocks loads soup =
     json_ld_loop loads
       (find_all soup (str ''script'') [(str ''type'', str ''application/ld+json'')]) []"

subsection \<open>Name extraction\<close>

text \<open>
  \<^verbatim>\<open>obj["name"].strip()\<close> exists for a string only; on any other value the attribute
  lookup raises \<^verbatim>\<open>AttributeError\<close>.
\<close>

fun extract_name_from_jsonld :: "jdict list \<Rightarrow> pyexc + pystr option" where
  "extract_name_from_jsonld [] = Inr None"
| "extract_name_from_jsonld (obj # blocks) =
     (let typ = dict_get obj (str ''@type'')
      in if typ = JStr (str ''Product'') \<and> truthy (dict_get obj (str ''name''))
         then (case dict_get obj (str ''name'') of
                 JStr s \<Rightarrow> Inr (if strip s \<noteq> [] then Some (strip s) else None)
               | _ \<Rightarrow> Inl AttributeError)
         else extract_name_from_jsonld blocks)"

text \<open>Step 2: the content of the \<^verbatim>\<open>og:title\<close> meta tag.\<close>

definition name_og_title :: "element \<Rightarrow> pystr option" where
  "name_og_title soup =
     (case find soup (str ''meta'') [(str ''property'', str ''og:title'')] of
        None \<Rightarrow> None
      | Some og \<Rightarrow>
          (case get og (str ''content'') of
             None \<Rightarrow> None
           | Some c \<Rightarrow> if c \<noteq> [] \<and> strip c \<noteq> [] then Some (strip c) else None))"

text \<open>Step 3: the text of the first \<^verbatim>\<open>h1\<close>.\<close>

definition name_h1 :: "element \<Rightarrow> pystr option" where
  "name_h1 soup =
     (case find soup (str ''h1'') [] of
        None \<Rightarrow> None
      | Some h1 \<Rightarrow>
          (let txt = get_text h1 (str '' '') True in if txt \<noteq> [] then Some txt else None))"

text \<open>
  Step 4: the title, cut at the first separator of the tuple that occurs in it. The
  second separator has an en dash.
\<close>

definition title_separators :: "pystr list" where
  "title_separators = [str '' | '', [SPACE, EN_DASH, SPACE], str '' - '']"

fun cut_title :: "pystr list \<Rightarrow> pystr \<Rightarrow> pystr" where
  "cut_title [] title = title"
| "cut_title (sep # seps) title =
     (if contains title sep then strip (split_head sep title) else cut_title seps title)"

definition name_title :: "element \<Rightarrow> pystr option" where
  "name_title soup =
     (case find soup (str ''title'') [] of
        None \<Rightarrow> None
      | Some t \<Rightarrow>
          (case dot_string t of
             None \<Rightarrow> None
           | Some s \<Rightarrow> if s \<noteq> [] then Some (cut_title title_separators (strip s)) else None))"

definition extract_name :: "json_decoder \<Rightarrow> element \<Rightarrow> pyexc + pystr option" where
  "extract_name loads soup =
     (case extract_name_from_jsonld (json_ld_blocks loads soup) of
        Inl e \<Rightarrow> Inl e
      | Inr name \<Rightarrow>
          if name \<noteq> None \<and> name \<noteq> Some [] then Inr name
          else (case name_og_title soup of
                  Some val \<Rightarrow> Inr (Some val)
                | None \<Rightarrow>
                    (case name_h1 soup of
                       Some txt \<Rightarrow> Inr (Some txt)
                     | None \<Rightarrow> Inr (name_title soup))))"

subsection \<open>Price extraction\<close>

text \<open>The tuple \<^verbatim>\<open>(price_text, price_value, currency, source_hint)\<close>.\<close>

type_synonym price_result = "pystr option \<times> pyfloat option \<times> pystr option \<times> pystr option"

text \<open>
  The currency of a \<^verbatim>\<open>...:currency\<close> meta tag:
  \<^verbatim>\<open>(meta["content"] or "BRL").strip() or "BRL"\<close> when the tag has a content, else
  \<^verbatim>\<open>"BRL"\<close>.
\<close>

definition meta_currency :: "element \<Rightarrow> pystr \<Rightarrow> pystr" where
  "meta_currency soup prop =
     (case find soup (str ''meta'') [(str ''property'', prop)] of
        None \<Rightarrow> str ''BRL''
      | Some meta_curr \<Rightarrow>
          (case get meta_curr (str ''content'') of
             None \<Rightarrow> str ''BRL''
           | Some c \<Rightarrow> if c \<noteq> [] \<and> strip c \<noteq> [] then strip c else str ''BRL''))"

text \<open>
  A: the meta tag \<^verbatim>\<open>product:price:amount\<close>. \<open>None\<close> means that the block returned
  nothing and the function goes on; an exception inside the \<^verbatim>\<open>try\<close> is swallowed.
\<close>

definition price_meta_amount :: "element \<Rightarrow> price_result option" where
  "price_meta_amount soup =
     (case find soup (str ''meta'') [(str ''property'', str ''product:price:amount'')] of
        None \<Rightarrow> None
      | Some meta_amount \<Rightarrow>
          (case get meta_amount (str ''content'') of
             None \<Rightarrow> None
           | Some c \<Rightarrow>
               if c = [] then None
               else (case py_float (replace (str '','') (str ''.'') c) of
                       Inl e \<Rightarrow> None
                     | Inr val \<Rightarrow>
                         Some (Some (fmt_brl val), Some val,
                               Some (meta_currency soup (str ''product:price:currency'')),
                               Some (str ''meta[property=''
                                     @ quoted (str ''product:price:amount'') @ str '']'')))))"

text \<open>
  B: the first element with \<^verbatim>\<open>itemprop="price"\<close>; its content attribute, or else its
  text. The fallback parse runs inside the \<^verbatim>\<open>except\<close> block, unguarded.
\<close>

definition price_itemprop :: "element \<Rightarrow> pyexc + price_result option" where
  "price_itemprop soup =
     (case select_one_attr soup (str ''itemprop'') (str ''price'') of
        None \<Rightarrow> Inr None
      | Some el \<Rightarrow>
          (let raw = (case get el (str ''content'') of
                        Some c \<Rightarrow> if c \<noteq> [] then c else get_text el (str '' '') True
                      | None \<Rightarrow> get_text el (str '' '') True)
           in if raw = [] then Inr None
              else (case py_float (replace (str '','') (str ''.'') raw) of
                      Inr val \<Rightarrow>
                        Inr (Some (Some (fmt_brl val), Some val, Some (str ''BRL''),
                                   Some (str ''itemprop='' @ quoted (str ''price''))))
                    | Inl e \<Rightarrow>
                        (case parse_brl_price_text_to_float raw of
                           Inl e' \<Rightarrow> Inl e'
                         | Inr None \<Rightarrow> Inr None
                         | Inr (Some p) \<Rightarrow>
                             Inr (Some (Some (fmt_brl p), Some p, Some (str ''BRL''),
                                        Some (str ''itemprop='' @ quoted (str ''price'')
                                              @ str '' (regex)'')))))))"

text \<open>C: the alternative meta tags, in the order of the tuple.\<close>

fun price_alt_metas :: "element \<Rightarrow> pystr list \<Rightarrow> price_result option" where
  "price_alt_metas soup [] = None"
| "price_alt_metas soup (prop # props) =
     (case find soup (str ''meta'') [(str ''property'', prop)] of
        None \<Rightarrow> price_alt_metas soup props
      | Some m \<Rightarrow>
          (case get m (str ''content'') of
             None \<Rightarrow> price_alt_metas soup props
           | Some c \<Rightarrow>
               if c = [] then price_alt_metas soup props
               else (case py_float (replace (str '','') (str ''.'') c) of
                       Inl e \<Rightarrow> price_alt_metas soup props
                     | Inr val \<Rightarrow>
                         Some (Some (fmt_brl val), Some val,
                               Some (meta_currency soup
                                       (replace (str '':amount'') (str '':currency'') prop)),
                               Some (str ''meta[property='' @ quoted prop @ str '']'')))))"

text \<open>D: the pattern on the text of the whole document.\<close>

definition price_regex_dom :: "element \<Rightarrow> pyexc + price_result" where
  "price_regex_dom soup =
     (let page_text = get_text soup (str '' '') True
      in case parse_brl_price_text_to_float page_text of
           Inl e \<Rightarrow> Inl e
         | Inr (Some p) \<Rightarrow>
             Inr (Some (fmt_brl p), Some p, Some (str ''BRL''), Some (str ''regex-dom''))
         | Inr None \<Rightarrow> Inr (None, None, None, None))"

text \<open>
  The function body runs A, then B, then C, then D, each step returning or falling
  through to the next. \<open>price_steps_CD\<close> is the body from C on, \<open>price_steps_BCD\<close>
  the body from B on.
\<close>

definition price_steps_CD :: "element \<Rightarrow> pyexc + price_result" where
  "price_steps_CD soup =
     (case price_alt_metas soup [str ''og:price:amount'', str ''product:sale_price:amount''] of
        Some r \<Rightarrow> Inr r
      | None \<Rightarrow> price_regex_dom soup)"

definition price_steps_BCD :: "element \<Rightarrow> pyexc + price_result" where
  "price_steps_BCD soup =
     (case price_itemprop soup of
        Inl e \<Rightarrow> Inl e
      | Inr (Some r) \<Rightarrow> Inr r
      | Inr None \<Rightarrow> price_steps_CD soup)"

definition extract_price_and_currency :: "element \<Rightarrow> pyexc + price_result" where
  "extract_price_and_currency soup =
     (case price_meta_amount soup of
        Some r \<Rightarrow> Inr r
      | None \<Rightarrow> price_steps_BCD soup)"

subsection \<open>The entry point\<close>


section \<open>Notions of the specification\<close>

text \<open>
  \<open>decodeStructuredBlocks\<close>, following the words of the specification: every JSON-LD
  script element, in document order, contributes the mapping it decodes to, or the
  mappings among the elements of the array it decodes to; an empty block, a block
  that does not decode and a block that decodes to anything else contribute nothing.
  The notions are those of the document, not those of the library: a JSON-LD script
  element is a \<^verbatim>\<open>script\<close> element whose \<^verbatim>\<open>type\<close> is \<^verbatim>\<open>application/ld+json\<close>, and the text
  of a block is the text content of the element, all the text below it in document
  order, without the whitespace at its ends.
\<close>

fun is_json_ld_script :: "element \<Rightarrow> bool" where
  "is_json_ld_script (Tag n a cs) =
     (n = str ''script'' \<and> map_of a (str ''type'') = Some (str ''application/ld+json''))"
| "is_json_ld_script (Str k s) = False"

fun text_content :: "element \<Rightarrow> pystr" where
  "text_content (Str k s) = s"
| "text_content (Tag n a cs) = concat (map text_content cs)"

definition block_text :: "element \<Rightarrow> pystr" where
  "block_text tag = strip (text_content tag)"

fun mappings_of :: "json \<Rightarrow> jdict list" where
  "mappings_of (JDict d) = [d]"
| "mappings_of (JList xs) = concat (map (\<lambda>x. case x of JDict d \<Rightarrow> [d] | _ \<Rightarrow> []) xs)"
| "mappings_of _ = []"

definition decode_block :: "json_decoder \<Rightarrow> element \<Rightarrow> jdict list" where
  "decode_block loads tag =
     (if block_text tag = [] then []
      else case loads (block_text tag) of Inl e \<Rightarrow> [] | Inr data \<Rightarrow> mappings_of data)"

definition decodeStructuredBlocks :: "json_decoder \<Rightarrow> element \<Rightarrow> jdict list" where
  "decodeStructuredBlocks loads document =
     concat (map (decode_block loads) (filter is_json_ld_script (descendants document)))"

text \<open>
  The raw string of the second price strategy: the content attribute of the element
  when it has one that is not empty, or else its visible text.
\<close>

definition item_price_text :: "element \<Rightarrow> pystr" where
  "item_price_text el =
     (case get el (str ''content'') of
        Some c \<Rightarrow> if c \<noteq> [] then c else get_text el (str '' '') True
      | None \<Rightarrow> get_text el (str '' '') True)"

text \<open>
  A float with two decimal digits that is not negative: a finite value without the
  sign that is the float its own rendering with two decimals denotes (as \<^verbatim>\<open>12.34\<close>,
  the binary64 value nearest to 1234/100, is).
\<close>

fun nonneg_two_decimals :: "pyfloat \<Rightarrow> bool" where
  "nonneg_two_decimals (Finite s q) =
     (\<not> s \<and> 0 \<le> q \<and> float_of_rat False (of_int (cents q) / 100) = Finite False q)"
| "nonneg_two_decimals _ = False"

text \<open>A result tuple that carries a price: a value, its formatted text, a currency, a hint.\<close>

fun priced :: "price_result \<Rightarrow> bool" where
  "priced (pt, Some v, c, h) = (pt = Some (fmt_brl v) \<and> c \<noteq> None \<and> h \<noteq> None)"
| "priced (pt, None, c, h) = False"

text \<open>The first block that \<^verbatim>\<open>_extract_name_from_jsonld\<close> stops at.\<close>

definition is_named_product :: "jdict \<Rightarrow> bool" where
  "is_named_product obj =
     (dict_get obj (str ''@type'') = JStr (str ''Product'')
      \<and> truthy (dict_get obj (str ''name'')))"

section \<open>Example documents\<close>

text \<open>
  Small documents, written as the trees the parser builds for the markup quoted with
  each, and a decoder and a parser that know these examples.
\<close>

definition document :: "element list \<Rightarrow> element" where
  "document children = Tag (str ''[document]'') [] children"

definition ld_json_script :: "pystr \<Rightarrow> element" where
  "ld_json_script txt =
     Tag (str ''script'') [(str ''type'', str ''application/ld+json'')] [Str Script txt]"

definition meta_tag :: "pystr \<Rightarrow> pystr \<Rightarrow> element" where
  "meta_tag prop content =
     Tag (str ''meta'') [(str ''property'', prop), (str ''content'', content)] []"

definition text_tag :: "pystr \<Rightarrow> pystr \<Rightarrow> element" where
  "text_tag name txt = Tag name [] [Str NavigableString txt]"

text \<open>\<^verbatim>\<open>{"@type": "Product", "name": 123}\<close>\<close>

definition json_numeric_name :: pystr where
  "json_numeric_name =
     str ''{'' @ quoted (str ''@type'') @ str '': '' @ quoted (str ''Product'') @ str '', ''
       @ quoted (str ''name'') @ str '': 123}''"

text \<open>\<^verbatim>\<open>{"@type": "Product", "name": " "}\<close>\<close>

definition json_blank_name :: pystr where
  "json_blank_name =
     str ''{'' @ quoted (str ''@type'') @ str '': '' @ quoted (str ''Product'') @ str '', ''
       @ quoted (str ''name'') @ str '': '' @ quoted (str '' '') @ str ''}''"

text \<open>\<^verbatim>\<open>[1, {"@type": "Product", "name": " Widget Pro "}]\<close>\<close>

definition json_widget_pro :: pystr where
  "json_widget_pro =
     str ''[1, {'' @ quoted (str ''@type'') @ str '': '' @ quoted (str ''Product'') @ str '', ''
       @ quoted (str ''name'') @ str '': '' @ quoted (str '' Widget Pro '') @ str ''}]''"

definition example_loads :: json_decoder where
  "example_loads s =
     (if s = json_numeric_name
      then Inr (JDict [(str ''@type'', JStr (str ''Product'')), (str ''name'', JInt 123)])
      else if s = json_blank_name
      then Inr (JDict [(str ''@type'', JStr (str ''Product'')), (str ''name'', JStr (str '' ''))])
      else if s = json_widget_pro
      then Inr (JList [JInt 1, JDict [(str ''@type'', JStr (str ''Product'')),
                                      (str ''name'', JStr (str '' Widget Pro ''))]])
      else Inl JSONDecodeError)"

text \<open>\<^verbatim>\<open><script type="application/ld+json">{"@type": "Product", "name": 123}</script>\<close>\<close>

definition doc_numeric_name :: element where
  "doc_numeric_name = document [ld_json_script json_numeric_name]"

text \<open>The block with the blank name, then \<^verbatim>\<open><h1>Gadget</h1>\<close>.\<close>

definition doc_blank_name :: element where
  "doc_blank_name =
     document [ld_json_script json_blank_name, text_tag (str ''h1'') (str ''Gadget'')]"

text \<open>
  A block that is not JSON, the block with the name \<^verbatim>\<open>" Widget Pro "\<close>, then
  \<^verbatim>\<open><h1>Gadget</h1>\<close>.
\<close>

definition doc_widget_pro :: element where
  "doc_widget_pro =
     document [ld_json_script (str ''{not valid json''), ld_json_script json_widget_pro,
               text_tag (str ''h1'') (str ''Gadget'')]"

text \<open>
  Six script elements: a blank JSON-LD block, a JSON-LD block that is not JSON, the
  JSON-LD block with the array, an empty JSON-LD script element, the JSON-LD block with
  the numeric name, and a script of another type.
\<close>

definition doc_blocks :: element where
  "doc_blocks =
     document [ld_json_script (str '' ''), ld_json_script (str ''{not valid json''),
               ld_json_script json_widget_pro,
               Tag (str ''script'') [(str ''type'', str ''application/ld+json'')] [],
               ld_json_script json_numeric_name,
               Tag (str ''script'') [(str ''type'', str ''text/javascript'')]
                 [Str Script json_blank_name]]"

text \<open>\<^verbatim>\<open><title>Widget - Acme | Store</title>\<close>\<close>

definition doc_title :: element where
  "doc_title = document [text_tag (str ''title'') (str ''Widget - Acme | Store'')]"

text \<open>\<^verbatim>\<open><meta property="product:price:amount" content="129.90">\<close>\<close>

definition doc_meta_amount :: element where
  "doc_meta_amount = document [meta_tag (str ''product:price:amount'') (str ''129.90'')]"

text \<open>
  Two such meta tags, of which the first has the content \<^verbatim>\<open>abc\<close> and the second the
  content \<^verbatim>\<open>129.90\<close>.
\<close>

definition doc_two_amounts :: element where
  "doc_two_amounts = document [meta_tag (str ''product:price:amount'') (str ''abc''),
                               meta_tag (str ''product:price:amount'') (str ''129.90'')]"

text \<open>
  \<^verbatim>\<open><meta property="product:price:amount" content="abc"><span itemprop="price">7.5</span>\<close>
\<close>

definition doc_amount_then_itemprop :: element where
  "doc_amount_then_itemprop =
     document [meta_tag (str ''product:price:amount'') (str ''abc''),
               Tag (str ''span'') [(str ''itemprop'', str ''price'')]
                 [Str NavigableString (str ''7.5'')]]"

text \<open>The same, the content being \<^verbatim>\<open>12.34\<close>.\<close>

definition doc_meta_12_34 :: element where
  "doc_meta_12_34 = document [meta_tag (str ''product:price:amount'') (str ''12.34'')]"

text \<open>The same, the content being \<^verbatim>\<open>-5\<close>, and the content being \<^verbatim>\<open>0.125\<close>.\<close>

definition doc_meta_negative :: element where
  "doc_meta_negative = document [meta_tag (str ''product:price:amount'') (str ''-5'')]"

definition doc_meta_eighth :: element where
  "doc_meta_eighth = document [meta_tag (str ''product:price:amount'') (str ''0.125'')]"

text \<open>\<^verbatim>\<open><p>R$ 5,00</p><p>R$ 1.234,56</p>\<close>\<close>

definition doc_two_prices :: element where
  "doc_two_prices =
     document [text_tag (str ''p'') (str ''R$ 5,00''),
               text_tag (str ''p'') (str ''R$ 1.234,56'')]"

text \<open>\<^verbatim>\<open><p>Total: R$ 1.234,56 hoje</p>\<close>\<close>

definition doc_one_price :: element where
  "doc_one_price = document [text_tag (str ''p'') (str ''Total: R$ 1.234,56 hoje'')]"

text \<open>\<^verbatim>\<open><span itemprop="price">R$1.234,50</span>\<close>\<close>

definition doc_itemprop :: element where
  "doc_itemprop =
     document [Tag (str ''span'') [(str ''itemprop'', str ''price'')]
                 [Str NavigableString (str ''R$1.234,50'')]]"







section \<open>Lemmas\<close>

subsection \<open>Strings and characters\<close>

lemma str_Nil [simp]: "str [] = []"
  by (simp add: str_def)

lemma str_eq_iff [simp]: "str a = str b \<longleftrightarrow> a = b"
proof -
  have "inj (of_char :: char \<Rightarrow> int)"
    by (rule injI) simp
  then show ?thesis
    by (simp add: str_def inj_map_eq_map)
qed

lemma str_eq_Nil [simp]: "str a = [] \<longleftrightarrow> a = []"
  by (simp add: str_def)

lemma to_ascii_ascii: "c < 127 \<Longrightarrow> to_ascii c = c"
  by (simp add: to_ascii_def)

lemma map_to_ascii_ascii: "list_all (\<lambda>c. c < 127) s \<Longrightarrow> map to_ascii s = s"
  by (induction s) (simp_all add: to_ascii_ascii)

lemma decimal_ascii: "c < 127 \<Longrightarrow> decimal c = (if isdigit c then Some (c - 48) else None)"
  by (simp add: decimal_def decimal_zeros_def isdigit_def)

lemma isdecimal_ascii: "c < 127 \<Longrightarrow> isdecimal c = isdigit c"
  by (simp add: isdecimal_def decimal_ascii)

lemma isdigit_isdecimal: "isdigit c \<Longrightarrow> isdecimal c"
  by (simp add: isdecimal_ascii isdigit_def)

lemma list_all_isdecimal: "list_all isdigit ds \<Longrightarrow> list_all isdecimal ds"
  by (induction ds) (simp_all add: isdigit_isdecimal)

lemma isdigit_ascii: "isdigit c \<Longrightarrow> c < 127"
  by (simp add: isdigit_def)

lemma isspace_ascii:
  "c < 127 \<Longrightarrow> isspace c = (c \<in> {9, 10, 11, 12, 13, 28, 29, 30, 31, 32})"
  by (auto simp: isspace_def)

lemma c_isspace_isspace: "c_isspace c \<Longrightarrow> isspace c"
  by (auto simp: c_isspace_def isspace_def)

subsection \<open>Evaluation of floats\<close>

lemma float_of_rat_eval:
  assumes "0 < q" "ilog2 q = k" "- 1022 \<le> k" "round_half_even (q / pow2 (k - 52)) = m"
    "of_int m * pow2 (k - 52) < pow2 1024" "of_int m * pow2 (k - 52) = r"
  shows "float_of_rat neg q = Finite neg r"
  using assms by (simp add: float_of_rat_def Let_def max_def)

lemma py_float_eval:
  assumes "take_sign (c_strip (map to_ascii s)) = (neg, body)"
    "map lower body \<notin> {str ''inf'', str ''infinity'', str ''nan''}"
    "mantissa_part body = Some (ds, k, r)" "exponent_part r = Some e"
    "of_int (int_of_digits ds) * pow10 (e - int k) = q"
  shows "py_float s = Inr (float_of_rat neg q)"
  using assms by (simp add: py_float_def)

lemma float_129_90:
  "float_of_rat False (1299 / 10) = Finite False (4570449934339277 / 35184372088832)"
  by (rule float_of_rat_eval [where k = 7 and m = 4570449934339277])
     (code_simp | simp add: pow2_def)+

lemma py_float_129_90: "py_float (str ''129.90'') = Inr (float_of_rat False (1299 / 10))"
  by (rule py_float_eval [where ds = "str ''12990''" and k = 2 and e = 0 and r = "[]"
        and body = "str ''129.90''"]) code_simp+

lemma float_5: "float_of_rat neg 5 = Finite neg 5"
  by (rule float_of_rat_eval [where k = 2 and m = "5 * 2 ^ 50"]) (code_simp | simp add: pow2_def)+


lemma py_float_minus_5: "py_float (str ''-5'') = Inr (float_of_rat True 5)"
  by (rule py_float_eval [where ds = "str ''5''" and k = 0 and e = 0 and r = "[]" and body
      = "str ''5''"])
     code_simp+

lemma float_1234_56:
  "float_of_rat False (123456 / 100) = Finite False (2714826150374277 / 2199023255552)"
  by (rule float_of_rat_eval [where k = 10 and m = 5429652300748554])
     (code_simp | simp add: pow2_def)+

lemma py_float_1234_56: "py_float (str ''1234.56'') = Inr (float_of_rat False (123456 / 100))"
  by (rule py_float_eval [where ds = "str ''123456''" and k = 2 and e = 0 and r = "[]"
        and body = "str ''1234.56''"]) code_simp+

lemma float_1234_50: "float_of_rat False (123450 / 100) = Finite False (2469 / 2)"
  by (rule float_of_rat_eval [where k = 10 and m = 5429388417957888])
     (code_simp | simp add: pow2_def)+

lemma py_float_1234_50: "py_float (str ''1234.50'') = Inr (float_of_rat False (123450 / 100))"
  by (rule py_float_eval [where ds = "str ''123450''" and k = 2 and e = 0 and r = "[]"
        and body = "str ''1234.50''"]) code_simp+

lemma float_0_12:
  "float_of_rat False (12 / 100) = Finite False (1080863910568919 / 9007199254740992)"
  by (rule float_of_rat_eval [where k = "- 4" and m = 8646911284551352])
     (code_simp | simp add: pow2_def)+

lemma py_float_0_12: "py_float (str ''0.12'') = Inr (float_of_rat False (12 / 100))"
  by (rule py_float_eval [where ds = "str ''012''" and k = 2 and e = 0 and r = "[]"
        and body = "str ''0.12''"]) code_simp+

lemma float_0_125: "float_of_rat False (125 / 1000) = Finite False (1 / 8)"
  by (rule float_of_rat_eval [where k = "- 3" and m = "2 ^ 52"])
     (code_simp | simp add: pow2_def)+

lemma py_float_0_125: "py_float (str ''0.125'') = Inr (float_of_rat False (125 / 1000))"
  by (rule py_float_eval [where ds = "str ''0125''" and k = 3 and e = 0 and r = "[]"
        and body = "str ''0.125''"]) code_simp+

lemma py_float_129_90_val:
  "py_float (str ''129.90'') = Inr (Finite False (4570449934339277 / 35184372088832))"
  by (simp only: py_float_129_90 float_129_90)

lemma py_float_1234_56_val:
  "py_float (str ''1234.56'') = Inr (Finite False (2714826150374277 / 2199023255552))"
  by (simp only: py_float_1234_56 float_1234_56)

lemma py_float_1234_50_val: "py_float (str ''1234.50'') = Inr (Finite False (2469 / 2))"
  by (simp only: py_float_1234_50 float_1234_50)

lemma py_float_0_12_val:
  "py_float (str ''0.12'') = Inr (Finite False (1080863910568919 / 9007199254740992))"
  by (simp only: py_float_0_12 float_0_12)

lemma py_float_0_125_val: "py_float (str ''0.125'') = Inr (Finite False (1 / 8))"
  by (simp only: py_float_0_125 float_0_125)


lemma py_float_minus_5_val: "py_float (str ''-5'') = Inr (Finite True 5)"
  by (simp only: py_float_minus_5 float_5)

lemma fmt_129_90: "fmt_brl (Finite False (4570449934339277 / 35184372088832)) = str ''R$ 129,90''"
  by code_simp

lemma fmt_1234_56: "fmt_brl (Finite False (2714826150374277 / 2199023255552))
    = str ''R$ 1.234,56''"
  by code_simp

lemma fmt_1234_50: "fmt_brl (Finite False (2469 / 2)) = str ''R$ 1.234,50''"
  by code_simp

lemma fmt_5: "fmt_brl (Finite False 5) = str ''R$ 5,00''"
  by code_simp

lemma fmt_minus_5: "fmt_brl (Finite True 5) = str ''R$ -5,00''"
  by code_simp

lemma fmt_0_125: "fmt_brl (Finite False (1 / 8)) = str ''R$ 0,12''"
  by code_simp

subsection \<open>Exceptions of the price extraction\<close>

lemma py_float_raises: "py_float s = Inl e \<Longrightarrow> e = ValueError"
  by (auto simp: py_float_def Let_def split: prod.splits if_splits option.splits)

lemma parse_brl_no_raise [simp]: "parse_brl_price_text_to_float text \<noteq> Inl e"
  by (auto simp: parse_brl_price_text_to_float_def Let_def dest: py_float_raises
      split: option.splits sum.splits)

lemma price_itemprop_no_raise [simp]: "price_itemprop soup \<noteq> Inl e"
  by (auto simp: price_itemprop_def Let_def split: option.splits if_splits sum.splits)

lemma price_regex_dom_no_raise [simp]: "price_regex_dom soup \<noteq> Inl e"
  by (auto simp: price_regex_dom_def Let_def split: option.splits sum.splits)

lemma extract_price_no_raise: "extract_price_and_currency soup \<noteq> Inl e"
  by (auto simp: extract_price_and_currency_def price_steps_BCD_def price_steps_CD_def
      split: option.splits sum.splits)

subsection \<open>Shape of the price tuple\<close>

lemma price_meta_amount_priced: "price_meta_amount soup = Some r \<Longrightarrow> priced r"
  by (auto simp: price_meta_amount_def split: option.splits if_splits sum.splits)

lemma price_itemprop_priced: "price_itemprop soup = Inr (Some r) \<Longrightarrow> priced r"
  by (auto simp: price_itemprop_def Let_def split: option.splits if_splits sum.splits)

lemma price_alt_metas_priced: "price_alt_metas soup props = Some r \<Longrightarrow> priced r"
  by (induction props) (auto split: option.splits if_splits sum.splits)

lemma price_regex_dom_shape:
  "price_regex_dom soup = Inr r \<Longrightarrow> r = (None, None, None, None) \<or> priced r"
  by (auto simp: price_regex_dom_def Let_def split: option.splits sum.splits)

lemma extract_price_shape:
  "extract_price_and_currency soup = Inr r \<Longrightarrow> r = (None, None, None, None) \<or> priced r"
  by (auto simp: extract_price_and_currency_def price_steps_BCD_def price_steps_CD_def
      simp del: price_alt_metas.simps
      dest: price_meta_amount_priced price_itemprop_priced price_alt_metas_priced
        price_regex_dom_shape
      split: option.splits sum.splits)

subsection \<open>Digits\<close>

lemma isdigit_digit_char: "0 \<le> d \<Longrightarrow> d < 10 \<Longrightarrow> isdigit (digit_char d)"
  by (simp add: isdigit_def digit_char_def)

lemma digit_val_digit_char: "0 \<le> d \<Longrightarrow> d < 10 \<Longrightarrow> digit_val (digit_char d) = d"
  by (simp add: digit_val_def digit_char_def)

lemma isdigit_not_special:
  assumes "isdigit c"
  shows "c \<noteq> COMMA" "c \<noteq> DOT" "c \<noteq> LETTER_X" "c \<noteq> LETTER_R" "c \<noteq> UNDERSCORE"
    "c \<noteq> MINUS" "c \<noteq> PLUS" "\<not> isspace c" "lower c = c"
  using assms by (auto simp: isdigit_def isspace_def lower_def)

lemma int_of_digits_append:
  "int_of_digits (a @ b) = int_of_digits a * 10 ^ length b + int_of_digits b"
proof -
  define F where "F = (\<lambda>(n::int) c. 10 * n + digit_val c)"
  have F: "foldl F k b = k * 10 ^ length b + foldl F 0 b" for k b
  proof (induction b arbitrary: k)
    case Nil
    show ?case by simp
  next
    case (Cons c b)
    have "foldl F k (c # b) = foldl F (F k c) b" by simp
    also have "\<dots> = F k c * 10 ^ length b + foldl F 0 b" by (rule Cons.IH)
    finally have 1: "foldl F k (c # b) = F k c * 10 ^ length b + foldl F 0 b" .
    have "foldl F 0 (c # b) = foldl F (F 0 c) b" by simp
    also have "\<dots> = F 0 c * 10 ^ length b + foldl F 0 b" by (rule Cons.IH)
    finally have 2: "foldl F 0 (c # b) = F 0 c * 10 ^ length b + foldl F 0 b" .
    have "F k c = k * 10 + F 0 c" by (simp add: F_def)
    with 1 2 show ?case by (simp add: algebra_simps)
  qed
  have "int_of_digits (a @ b) = foldl F (foldl F 0 a) b"
    by (simp add: int_of_digits_def F_def)
  also have "\<dots> = foldl F 0 a * 10 ^ length b + foldl F 0 b" by (rule F)
  finally show ?thesis by (simp add: int_of_digits_def F_def)
qed

lemma int_of_digits_single: "int_of_digits [c] = digit_val c"
  by (simp add: int_of_digits_def)

lemma str_int_digits:
  "0 \<le> n \<Longrightarrow> str_int n \<noteq> [] \<and> list_all isdigit (str_int n) \<and> int_of_digits (str_int n) = n"
proof (induction n rule: str_int.induct)
  case (1 n)
  show ?case
  proof (cases "n < 10")
    case True
    with "1.prems" show ?thesis
      by (simp add: str_int.simps [of n] isdigit_digit_char int_of_digits_single
          digit_val_digit_char)
  next
    case False
    with "1.prems" have ih: "str_int (n div 10) \<noteq> [] \<and> list_all isdigit (str_int (n div 10))
        \<and> int_of_digits (str_int (n div 10)) = n div 10"
      using "1.IH" by simp
    have m: "0 \<le> n mod 10" "n mod 10 < 10" by simp_all
    from False ih m show ?thesis
      by (simp add: str_int.simps [of n] isdigit_digit_char int_of_digits_append
          int_of_digits_single digit_val_digit_char)
  qed
qed

lemma str_int_length: 
  assumes "0 \<le> n" "n < 1000" 
  shows "length (str_int n) \<le> 3"
proof -
  have a: "length (str_int k) = 1" if "k < 10" for k
    using that by (simp add: str_int.simps [of k])
  have b: "length (str_int k) = 2" if "\<not> k < 10" "k < 100" for k
    using that a [of "k div 10"] by (simp add: str_int.simps [of k])
  have c: "length (str_int k) = 3" if "\<not> k < 100" "k < 1000" for k
    using that b [of "k div 10"] by (simp add: str_int.simps [of k])
  show ?thesis
  proof (cases "n < 10")
    case True
    then show ?thesis using a [of n] by simp
  next
    case n10: False
    show ?thesis
    proof (cases "n < 100")
      case True
      then show ?thesis using b [of n] n10 by simp
    next
      case False
      then show ?thesis using c [of n] assms by simp
    qed
  qed
qed

lemma three_digits:
  assumes "0 \<le> (m::int)" "m < 1000"
  shows "100 * (m div 100 mod 10) + 10 * (m div 10 mod 10) + m mod 10 = m"
proof -
  have a: "m div 100 = m div 10 div 10"
    by (simp add: zdiv_zmult2_eq)
  have "m div 100 < 10" using assms by simp
  moreover have "0 \<le> m div 100" using assms by simp
  ultimately have b: "m div 100 mod 10 = m div 10 div 10"
    using a by simp
  have "10 * (m div 10 div 10) + m div 10 mod 10 = m div 10" by simp
  then have "10 * (10 * (m div 10 div 10) + m div 10 mod 10) = 10 * (m div 10)" by simp
  then have "100 * (m div 10 div 10) + 10 * (m div 10 mod 10) = 10 * (m div 10)"
    by (simp only: distrib_left mult.assoc [symmetric])
  then show ?thesis unfolding b by simp
qed
lemma two_digits:
  assumes "0 \<le> (m::int)" "m < 100"
  shows "10 * (m div 10 mod 10) + m mod 10 = m"
proof -
  have "m div 10 < 10" using assms by simp
  moreover have "0 \<le> m div 10" using assms by simp
  ultimately have "m div 10 mod 10 = m div 10" by simp
  then show ?thesis by simp
qed

lemma int_of_digits_three:
  "int_of_digits [a, b, c] = 100 * digit_val a + 10 * digit_val b + digit_val c"
  by (simp add: int_of_digits_def)

lemma pad3_digits:
  assumes "0 \<le> m" "m < 1000"
  shows "length (pad3 m) = 3" "list_all isdigit (pad3 m)" "int_of_digits (pad3 m) = m"
proof -
  have d2: "isdigit (digit_char (m div 100 mod 10))"
    "digit_val (digit_char (m div 100 mod 10)) = m div 100 mod 10"
    by (simp_all add: isdigit_digit_char digit_val_digit_char)
  have d1: "isdigit (digit_char (m div 10 mod 10))"
    "digit_val (digit_char (m div 10 mod 10)) = m div 10 mod 10"
    by (simp_all add: isdigit_digit_char digit_val_digit_char)
  have d0: "isdigit (digit_char (m mod 10))" "digit_val (digit_char (m mod 10)) = m mod 10"
    by (simp_all add: isdigit_digit_char digit_val_digit_char)
  show "length (pad3 m) = 3" by (simp add: pad3_def)
  show "list_all isdigit (pad3 m)"
    using d2(1) d1(1) d0(1) by (simp add: pad3_def)
  show "int_of_digits (pad3 m) = m"
    unfolding pad3_def int_of_digits_three d2(2) d1(2) d0(2)
    using assms by (rule three_digits)
qed

lemma pad2_digits:
  assumes "0 \<le> m" "m < 100"
  shows "length (pad2 m) = 2" "list_all isdigit (pad2 m)" "int_of_digits (pad2 m) = m"
proof -
  have d: "0 \<le> m div 10 mod 10" "m div 10 mod 10 < 10" "0 \<le> m mod 10" "m mod 10 < 10"
    by simp_all
  show "length (pad2 m) = 2" by (simp add: pad2_def)
  show "list_all isdigit (pad2 m)"
    using d by (simp add: pad2_def isdigit_digit_char)
  have "10 * (m div 10 mod 10) + m mod 10 = m"
    using assms by (rule two_digits)
  then show "int_of_digits (pad2 m) = m"
    using d by (simp add: pad2_def int_of_digits_def digit_val_digit_char)
qed

subsection \<open>Replacing and stripping\<close>

lemma replace_char: "replace [x] [y] s = map (\<lambda>c. if c = x then y else c) s"
  by (induction s) (simp_all add: startswith_def)

lemma replace_char_delete: "replace [x] [] s = filter (\<lambda>c. c \<noteq> x) s"
  by (induction s) (simp_all add: startswith_def)

lemma replace_absent: "x \<notin> set s \<Longrightarrow> replace (x # old) new s = s"
  by (induction s) (auto simp: startswith_def)

lemma strip_clean:
  assumes "s \<noteq> []" "\<not> isspace (hd s)" "\<not> isspace (last s)"
  shows "strip s = s"
proof -
  from assms have "dropWhile isspace s = s"
    by (cases s) simp_all
  moreover from assms have "dropWhile isspace (rev s) = rev s"
    by (cases "rev s") (simp_all add: hd_rev)
  ultimately show ?thesis
    by (simp add: strip_def)
qed

lemma c_strip_clean:
  assumes "s \<noteq> []" "\<not> isspace (hd s)" "\<not> isspace (last s)"
  shows "c_strip s = s"
proof -
  from assms have "\<not> c_isspace (hd s)" "\<not> c_isspace (last s)"
    by (auto dest: c_isspace_isspace)
  with assms(1) have "dropWhile c_isspace s = s" "dropWhile c_isspace (rev s) = rev s"
    by (cases s, simp_all) (cases "rev s", simp_all add: hd_rev)
  then show ?thesis
    by (simp add: c_strip_def)
qed

lemma strip_leading_space:
  assumes "s \<noteq> []" "\<not> isspace (hd s)" "\<not> isspace (last s)"
  shows "strip (SPACE # s) = s"
proof -
  have "dropWhile isspace (SPACE # s) = dropWhile isspace s"
    by (simp add: isspace_def)
  then have "strip (SPACE # s) = strip s"
    by (simp add: strip_def)
  with assms show ?thesis
    by (simp add: strip_clean)
qed

subsection \<open>The grouped integer part\<close>

text \<open>The groups of a grouped numeral, joined by a separator before each later group.\<close>

lemma group_thousands_shape:
  assumes "0 \<le> n"
  shows "\<exists>a gs. group_thousands n = a @ concat (map (\<lambda>g. COMMA # g) gs)
           \<and> a \<noteq> [] \<and> length a \<le> 3 \<and> list_all isdigit a
           \<and> list_all (\<lambda>g. length g = 3 \<and> list_all isdigit g) gs
           \<and> int_of_digits (a @ concat gs) = n"
  using assms
proof (induction n rule: group_thousands.induct)
  case (1 n)
  show ?case
  proof (cases "n < 1000")
    case True
    have "group_thousands n = str_int n @ concat (map (\<lambda>g. COMMA # g) [])"
      using True by (simp add: group_thousands.simps [of n])
    moreover have "str_int n \<noteq> []" "list_all isdigit (str_int n)" "int_of_digits (str_int n) = n"
      using str_int_digits [OF "1.prems"] by simp_all
    moreover have "length (str_int n) \<le> 3"
      using "1.prems" True by (rule str_int_length)
    ultimately show ?thesis
      by (intro exI [of _ "str_int n"] exI [of _ "[]"]) simp
  next
    case False
    with "1.prems" have "0 \<le> n div 1000" by simp
    with "1.IH" False obtain a gs where
      g: "group_thousands (n div 1000) = a @ concat (map (\<lambda>g. COMMA # g) gs)"
      and a: "a \<noteq> []" "length a \<le> 3" "list_all isdigit a"
      and gs: "list_all (\<lambda>g. length g = 3 \<and> list_all isdigit g) gs"
      and v: "int_of_digits (a @ concat gs) = n div 1000"
      by blast
    have m: "0 \<le> n mod 1000" "n mod 1000 < 1000" by simp_all
    note p = pad3_digits [OF m]
    have "group_thousands n = a @ concat (map (\<lambda>g. COMMA # g) (gs @ [pad3 (n mod 1000)]))"
      using False g by (simp add: group_thousands.simps [of n])
    moreover have "list_all (\<lambda>g. length g = 3 \<and> list_all isdigit g) (gs @ [pad3 (n mod 1000)])"
      using gs p by simp
    moreover have "int_of_digits (a @ concat (gs @ [pad3 (n mod 1000)])) = n"
    proof -
      have "int_of_digits ((a @ concat gs) @ pad3 (n mod 1000))
          = int_of_digits (a @ concat gs) * 10 ^ length (pad3 (n mod 1000))
            + int_of_digits (pad3 (n mod 1000))"
        by (rule int_of_digits_append)
      also have "\<dots> = n div 1000 * 1000 + n mod 1000"
        unfolding v p by simp
      finally show ?thesis by simp
    qed
    ultimately show ?thesis
      using a by (intro exI [of _ a] exI [of _ "gs @ [pad3 (n mod 1000)]"]) simp
  qed
qed

subsection \<open>Matching the price pattern\<close>

lemma leaves_iff: "leaves r s t \<longleftrightarrow> (\<exists>ts. rmatch r s = t # ts)"
  by (auto simp: leaves_def split: list.splits)

lemma leaves_Atom: "p c \<Longrightarrow> leaves (Atom p) (c # cs) cs"
  by (simp add: leaves_def)

lemma leaves_Cat: "leaves a s u \<Longrightarrow> leaves b u t \<Longrightarrow> leaves (Cat a b) s t"
  by (auto simp: leaves_iff)

lemma rep_stop:
  assumes "f s = [] \<or> hi = Some 0"
  shows "rep f fuel 0 hi s = [s]"
  using assms by (cases fuel) auto

lemma rep_iterate:
  assumes "f s = u # us" "length u < length s" "hi \<noteq> Some 0"
    and "rep f k (lo - 1) (map_option (\<lambda>h. h - 1) hi) u = t # ts"
  shows "\<exists>ts'. rep f (Suc k) lo hi s = t # ts'"
  using assms by simp

lemma rep_chars:
  assumes f: "\<And>c cs. f (c # cs) = (if p c then [cs] else [])" "f [] = []"
    and "list_all p ds" "lo \<le> length ds"
    and "case hi of None \<Rightarrow> True | Some h \<Rightarrow> length ds \<le> h"
    and "rest = [] \<or> \<not> p (hd rest) \<or> hi = Some (length ds)"
    and "length (ds @ rest) \<le> fuel"
  shows "\<exists>ts. rep f fuel lo hi (ds @ rest) = rest # ts"
  using assms(3-)
proof (induction ds arbitrary: fuel lo hi)
  case Nil
  then have lo: "lo = 0" by simp
  from Nil.prems(4) have "f rest = [] \<or> hi = Some 0"
    by (cases rest) (auto simp: f)
  then have "rep f fuel 0 hi rest = [rest]"
    by (rule rep_stop)
  with lo show ?case by simp
next
  case (Cons d ds)
  from Cons.prems(5) obtain k where k: "fuel = Suc k" "length (ds @ rest) \<le> k"
    by (cases fuel) auto
  from Cons.prems(1) have d: "p d" "list_all p ds" by simp_all
  from Cons.prems(3) have h0: "hi \<noteq> Some 0"
    by (auto split: option.splits)
  have "\<exists>ts. rep f k (lo - 1) (map_option (\<lambda>h. h - 1) hi) (ds @ rest) = rest # ts"
  proof (rule Cons.IH [OF d(2) _ _ _ k(2)])
    show "lo - 1 \<le> length ds" using Cons.prems(2) by simp
    show "case map_option (\<lambda>h. h - 1) hi of None \<Rightarrow> True | Some h \<Rightarrow> length ds \<le> h"
      using Cons.prems(3) by (auto split: option.splits)
    show "rest = [] \<or> \<not> p (hd rest) \<or> map_option (\<lambda>h. h - 1) hi = Some (length ds)"
      using Cons.prems(4) by auto
  qed
  then obtain ts where
    ts: "rep f k (lo - 1) (map_option (\<lambda>h. h - 1) hi) (ds @ rest) = rest # ts"
    by blast
  have "f ((d # ds) @ rest) = (ds @ rest) # []"
    using d(1) by (simp add: f)
  from rep_iterate [OF this _ h0 ts] show ?case
    unfolding k(1) by simp
qed

lemma rep_class:
  assumes "list_all p ds" "lo \<le> length ds"
    and "case hi of None \<Rightarrow> True | Some h \<Rightarrow> length ds \<le> h"
    and "rest = [] \<or> \<not> p (hd rest) \<or> hi = Some (length ds)"
    and "length (ds @ rest) \<le> fuel"
  shows "\<exists>ts. rep (rmatch (Atom p)) fuel lo hi (ds @ rest) = rest # ts"
  by (rule rep_chars [OF _ _ assms]) simp_all

lemma leaves_Rep_class:
  assumes "list_all p ds" "lo \<le> length ds"
    and "case hi of None \<Rightarrow> True | Some h \<Rightarrow> length ds \<le> h"
    and "rest = [] \<or> \<not> p (hd rest) \<or> hi = Some (length ds)"
  shows "leaves (Rep lo hi (Atom p)) (ds @ rest) rest"
  using rep_class [OF assms, of "length (ds @ rest)"] by (simp add: leaves_iff)

text \<open>A group of the pattern: a point and three digits.\<close>

lemma leaves_group:
  assumes "length g = 3" "list_all isdigit g"
  shows "leaves (Cat (lit DOT) (Rep 3 (Some 3) (Atom isdecimal))) (DOT # g @ rest) rest"
proof (rule leaves_Cat)
  show "leaves (lit DOT) (DOT # g @ rest) (g @ rest)"
    by (simp add: lit_def leaves_Atom)
  show "leaves (Rep 3 (Some 3) (Atom isdecimal)) (g @ rest) rest"
    using assms by (intro leaves_Rep_class) (simp_all add: list_all_isdecimal)
qed

lemma rep_groups_any:
  assumes f: "\<And>g t. length g = 3 \<Longrightarrow> list_all isdigit g \<Longrightarrow> \<exists>us. f (DOT # g @ t) = t # us"
      "\<And>t. t = [] \<or> hd t \<noteq> DOT \<Longrightarrow> f t = []"
    and "list_all (\<lambda>g. length g = 3 \<and> list_all isdigit g) gs"
    and "rest = [] \<or> hd rest \<noteq> DOT"
    and "length (concat (map (\<lambda>g. DOT # g) gs) @ rest) \<le> fuel"
  shows "\<exists>ts. rep f fuel 0 None (concat (map (\<lambda>g. DOT # g) gs) @ rest) = rest # ts"
  using assms(3-)
proof (induction gs arbitrary: fuel)
  case Nil
  have "rep f fuel 0 None rest = [rest]"
    using f(2) [OF Nil.prems(2)] by (intro rep_stop) simp
  then show ?case by simp
next
  case (Cons g gs)
  let ?tail = "concat (map (\<lambda>g. DOT # g) gs) @ rest"
  from Cons.prems(3) obtain k where k: "fuel = Suc k" "length ?tail \<le> k"
    by (cases fuel) auto
  from Cons.prems(1) have g: "length g = 3" "list_all isdigit g"
    and gs: "list_all (\<lambda>g. length g = 3 \<and> list_all isdigit g) gs"
    by simp_all
  from f(1) [OF g, of ?tail] obtain us where us: "f (DOT # g @ ?tail) = ?tail # us"
    by blast
  from Cons.IH [OF gs Cons.prems(2) k(2)] obtain ts where
    ts: "rep f k 0 None ?tail = rest # ts"
    by blast
  have "\<exists>ts'. rep f (Suc k) 0 None (DOT # g @ ?tail) = rest # ts'"
  proof (rule rep_iterate [where u = ?tail and us = us and ts = ts])
    show "f (DOT # g @ ?tail) = ?tail # us" by (rule us)
    show "length ?tail < length (DOT # g @ ?tail)" by simp
    show "None \<noteq> Some (0::nat)" by simp
    show "rep f k (0 - 1) (map_option (\<lambda>h. h - 1) None) ?tail = rest # ts"
      using ts by simp
  qed
  then show ?case
    unfolding k(1) by simp
qed

lemma group_fails:
  assumes "t = [] \<or> hd t \<noteq> DOT"
  shows "rmatch (Cat (lit DOT) (Rep 3 (Some 3) (Atom isdecimal))) t = []"
  using assms by (cases t) (auto simp: lit_def)

lemma rep_groups:
  assumes "list_all (\<lambda>g. length g = 3 \<and> list_all isdigit g) gs"
    and "rest = [] \<or> hd rest \<noteq> DOT"
    and "length (concat (map (\<lambda>g. DOT # g) gs) @ rest) \<le> fuel"
  shows "\<exists>ts. rep (rmatch (Cat (lit DOT) (Rep 3 (Some 3) (Atom isdecimal)))) fuel 0 None
           (concat (map (\<lambda>g. DOT # g) gs) @ rest) = rest # ts"
proof (rule rep_groups_any [OF _ _ assms])
  fix g t
  assume "length g = 3" "list_all isdigit g"
  from leaves_group [OF this, of t]
  show "\<exists>us. rmatch (Cat (lit DOT) (Rep 3 (Some 3) (Atom isdecimal))) (DOT # g @ t) = t # us"
    by (simp only: leaves_iff)
next
  fix t :: pystr
  assume "t = [] \<or> hd t \<noteq> DOT"
  then show "rmatch (Cat (lit DOT) (Rep 3 (Some 3) (Atom isdecimal))) t = []"
    by (rule group_fails)
qed

lemma leaves_groups:
  assumes "list_all (\<lambda>g. length g = 3 \<and> list_all isdigit g) gs"
    and "rest = [] \<or> hd rest \<noteq> DOT"
  shows "leaves (Rep 0 None (Cat (lit DOT) (Rep 3 (Some 3) (Atom isdecimal))))
           (concat (map (\<lambda>g. DOT # g) gs) @ rest) rest"
  using rep_groups [OF assms, of "length (concat (map (\<lambda>g. DOT # g) gs) @ rest)"]
  by (simp add: leaves_iff)

lemma search_leaves:
  assumes "leaves r (c # cs) t"
  shows "search r (c # cs) = Some (take (length (c # cs) - length t) (c # cs))"
  using assms by (auto simp: leaves_iff)

lemma search_skip:
  assumes "list_all (\<lambda>i. \<not> matches_at r (pre @ c # cs) i) [0..<length pre]"
    and "leaves r (c # cs) t"
  shows "search r (pre @ c # cs) = Some (take (length (c # cs) - length t) (c # cs))"
  using assms(1)
proof (induction pre)
  case Nil
  show ?case using search_leaves [OF assms(2)] by simp
next
  case (Cons x pre)
  from Cons.prems have all: "\<forall>i<Suc (length pre). \<not> matches_at r ((x # pre) @ c # cs) i"
    unfolding list_all_iff by (auto simp del: upt_Suc)
  from all have "\<not> matches_at r ((x # pre) @ c # cs) 0"
    by blast
  then have 0: "rmatch r (x # pre @ c # cs) = []"
    by (simp add: matches_at_def)
  have "\<not> matches_at r (pre @ c # cs) i" if "i < length pre" for i
    using all [rule_format, of "Suc i"] that by (simp add: matches_at_def)
  then have "list_all (\<lambda>i. \<not> matches_at r (pre @ c # cs) i) [0..<length pre]"
    by (simp add: list_all_iff)
  from Cons.IH [OF this] 0 show ?case
    by simp
qed

text \<open>The pattern matches a formatted price, whatever follows it.\<close>

lemma price_pattern_leaves:
  assumes a: "a \<noteq> []" "length a \<le> 3" "list_all isdigit a"
    and gs: "list_all (\<lambda>g. length g = 3 \<and> list_all isdigit g) gs"
    and f: "length f = 2" "list_all isdigit f"
  shows "leaves BR_PRICE_RE
           (str ''R$ '' @ a @ concat (map (\<lambda>g. DOT # g) gs) @ str '','' @ f @ post) post"
proof -
  let ?G = "concat (map (\<lambda>g. DOT # g) gs)"
  let ?T = "str ''R$ '' @ a @ ?G @ str '','' @ f @ post"
  from a obtain d a' where da: "a = d # a'" "isdigit d"
    by (cases a) auto
  have 1: "leaves (lit_ignorecase LETTER_R) ?T (str ''$ '' @ a @ ?G @ str '','' @ f @ post)"
    by (simp add: lit_ignorecase_def leaves_Atom str_def)
  have 2: "leaves (lit DOLLAR) (str ''$ '' @ a @ ?G @ str '','' @ f @ post)
      (str '' '' @ a @ ?G @ str '','' @ f @ post)"
    by (simp add: lit_def leaves_Atom str_def)
  have 3: "leaves (Rep 0 None (Atom isspace)) (str '' '' @ a @ ?G @ str '','' @ f @ post)
      (a @ ?G @ str '','' @ f @ post)"
    using da isdigit_not_special(8) [OF da(2)]
    by (intro leaves_Rep_class) (simp_all add: isspace_def str_def)
  have 4: "leaves (Rep 1 (Some 3) (Atom isdecimal)) (a @ ?G @ str '','' @ f @ post)
      (?G @ str '','' @ f @ post)"
  proof (intro leaves_Rep_class)
    show "?G @ str '','' @ f @ post = [] \<or> \<not> isdecimal (hd (?G @ str '','' @ f @ post))
        \<or> Some 3 = Some (length a)"
      by (cases gs) (auto simp: isdecimal_ascii isdigit_def str_def)
    show "1 \<le> length a" using a(1) by (cases a) simp_all
  qed (use a in \<open>simp_all add: list_all_isdecimal\<close>)
  have 5: "leaves (Rep 0 None (Cat (lit DOT) (Rep 3 (Some 3) (Atom isdecimal))))
      (?G @ str '','' @ f @ post) (str '','' @ f @ post)"
    using gs by (intro leaves_groups) (simp_all add: str_def)
  have 6: "leaves (lit COMMA) (str '','' @ f @ post) (f @ post)"
    by (simp add: lit_def leaves_Atom str_def)
  have 7: "leaves (Rep 2 (Some 2) (Atom isdecimal)) (f @ post) post"
    using f by (intro leaves_Rep_class) (simp_all add: list_all_isdecimal)
  show ?thesis
    unfolding BR_PRICE_RE_def
    using 1 2 3 4 5 6 7 by (auto intro!: leaves_Cat)
qed

lemma price_pattern_matches:
  assumes a: "a \<noteq> []" "length a \<le> 3" "list_all isdigit a"
    and gs: "list_all (\<lambda>g. length g = 3 \<and> list_all isdigit g) gs"
    and f: "length f = 2" "list_all isdigit f"
  shows "search BR_PRICE_RE (str ''R$ '' @ a @ concat (map (\<lambda>g. DOT # g) gs) @ str '','' @ f)
           = Some (str ''R$ '' @ a @ concat (map (\<lambda>g. DOT # g) gs) @ str '','' @ f)"
proof -
  let ?G = "concat (map (\<lambda>g. DOT # g) gs)"
  from price_pattern_leaves [OF assms, of "[]"]
  have "leaves BR_PRICE_RE (LETTER_R # str ''$ '' @ a @ ?G @ str '','' @ f) []"
    by (simp add: str_def)
  from search_leaves [OF this] show ?thesis
    by (simp add: str_def)
qed

subsection \<open>Reading a decimal numeral\<close>

lemma digitpart_rest_digits:
  assumes "list_all isdigit ds" "r = [] \<or> (\<not> isdigit (hd r) \<and> hd r \<noteq> UNDERSCORE)"
  shows "digitpart_rest (ds @ r) = (ds, r)"
  using assms
proof (induction ds)
  case Nil
  then show ?case
    by (cases r rule: digitpart_rest.cases) auto
next
  case (Cons x ds)
  then have x: "isdigit x" and ih: "digitpart_rest (ds @ r) = (ds, r)"
    by simp_all
  show ?case
  proof (cases "ds @ r")
    case Nil
    with x show ?thesis by simp
  next
    case (Cons y ys)
    with x ih show ?thesis by simp
  qed
qed

lemma digitpart_digits:
  assumes "ds \<noteq> []" "list_all isdigit ds" "r = [] \<or> (\<not> isdigit (hd r) \<and> hd r \<noteq> UNDERSCORE)"
  shows "digitpart (ds @ r) = Some (ds, r)"
proof -
  from assms(1,2) obtain x xs where ds: "ds = x # xs" "isdigit x" "list_all isdigit xs"
    by (cases ds) auto
  with digitpart_rest_digits [OF ds(3) assms(3)] show ?thesis
    by (simp add: digitpart_def)
qed

lemma py_float_decimal:
  assumes D: "D \<noteq> []" "list_all isdigit D" and f: "f \<noteq> []" "list_all isdigit f"
  shows "py_float (D @ str ''.'' @ f)
           = Inr (float_of_rat False (of_int (int_of_digits (D
               @ f)) * pow10 (0 - int (length f))))"
proof -
  let ?s = "D @ str ''.'' @ f"
  from D obtain x xs where Dx: "D = x # xs" "isdigit x"
    by (cases D) auto
  from f have lf: "isdigit (last f)"
    by (induction f) auto
  have "list_all (\<lambda>c. c < 127) ?s"
    using D(2) f(2) by (auto simp: list_all_iff str_def dest: isdigit_ascii)
  then have "map to_ascii ?s = ?s"
    by (rule map_to_ascii_ascii)
  moreover have "c_strip ?s = ?s"
    using f Dx isdigit_not_special(8) [OF Dx(2)] isdigit_not_special(8) [OF lf]
    by (intro c_strip_clean) simp_all
  moreover have "take_sign ?s = (False, ?s)"
    using Dx isdigit_not_special(6,7) [OF Dx(2)] by (simp add: take_sign_def)
  moreover have "map lower ?s \<notin> {str ''inf'', str ''infinity'', str ''nan''}"
    using Dx isdigit_not_special(9) [OF Dx(2)] by (auto simp: isdigit_def str_def)
  moreover have "mantissa_part ?s = Some (D @ f, length f, [])"
  proof -
    have "digitpart (D @ (str ''.'' @ f)) = Some (D, str ''.'' @ f)"
      using D by (intro digitpart_digits) (simp_all add: isdigit_def str_def)
    moreover have "digitpart (f @ []) = Some (f, [])"
      using f by (intro digitpart_digits) simp_all
    ultimately show ?thesis
      by (simp add: mantissa_part_def str_def)
  qed
  moreover have "exponent_part [] = Some 0"
    by (simp add: exponent_part_def)
  ultimately show ?thesis
    by (simp add: py_float_def)
qed

subsection \<open>The shape of a formatted price\<close>

lemma round_half_even_nonneg: "0 \<le> x \<Longrightarrow> 0 \<le> round_half_even x"
  by (simp add: round_half_even_def Let_def)

lemma cents_nonneg: "0 \<le> cents q"
  by (simp add: cents_def round_half_even_nonneg)

lemma fmt_brl_map:
  "fmt_brl val = map (\<lambda>c. if c = COMMA then DOT else if c = DOT then COMMA
                           else if c = LETTER_X then DOT else c)
                     (str ''R$ '' @ format_comma_2f val)"
  by (simp add: fmt_brl_def replace_char str_def del: replace.simps)

lemma map_swap_digits:
  assumes "list_all isdigit ds"
  shows "map (\<lambda>c. if c = COMMA then DOT else if c = DOT then COMMA
                   else if c = LETTER_X then DOT else c) ds = ds"
  using assms by (induction ds) (auto dest: isdigit_not_special)

lemma map_swap_groups:
  assumes "list_all (\<lambda>g. length g = 3 \<and> list_all isdigit g) gs"
  shows "map (\<lambda>c. if c = COMMA then DOT else if c = DOT then COMMA
                   else if c = LETTER_X then DOT else c)
             (concat (map (\<lambda>g. COMMA # g) gs))
         = concat (map (\<lambda>g. DOT # g) gs)"
  using assms by (induction gs) (simp_all add: map_swap_digits)

lemma fmt_brl_shape:
  "\<exists>a gs f. fmt_brl (Finite False q)
               = str ''R$ '' @ a @ concat (map (\<lambda>g. DOT # g) gs) @ str '','' @ f
           \<and> a \<noteq> [] \<and> length a \<le> 3 \<and> list_all isdigit a
           \<and> list_all (\<lambda>g. length g = 3 \<and> list_all isdigit g) gs
           \<and> length f = 2 \<and> list_all isdigit f
           \<and> int_of_digits ((a @ concat gs) @ f) = cents q"
proof -
  have n: "0 \<le> cents q div 100"
    using cents_nonneg [of q] by simp
  have m: "0 \<le> cents q mod 100" "cents q mod 100 < 100"
    by simp_all
  from group_thousands_shape [OF n] obtain a gs where
    g: "group_thousands (cents q div 100) = a @ concat (map (\<lambda>g. COMMA # g) gs)"
    and a: "a \<noteq> []" "length a \<le> 3" "list_all isdigit a"
    and gs: "list_all (\<lambda>g. length g = 3 \<and> list_all isdigit g) gs"
    and v: "int_of_digits (a @ concat gs) = cents q div 100"
    by blast
  note p = pad2_digits [OF m]
  have "fmt_brl (Finite False q)
      = str ''R$ '' @ a @ concat (map (\<lambda>g. DOT # g) gs) @ str '','' @ pad2 (cents q mod 100)"
    by (simp add: fmt_brl_map g map_swap_digits [OF a(3)] map_swap_digits [OF p(2)]
        map_swap_groups [OF gs] str_def)
  moreover have "int_of_digits ((a @ concat gs) @ pad2 (cents q mod 100)) = cents q"
  proof -
    have "int_of_digits ((a @ concat gs) @ pad2 (cents q mod 100))
        = int_of_digits (a @ concat gs) * 10 ^ length (pad2 (cents q mod 100))
          + int_of_digits (pad2 (cents q mod 100))"
      by (rule int_of_digits_append)
    also have "\<dots> = cents q div 100 * 100 + cents q mod 100"
      unfolding v p by simp
    finally show ?thesis by simp
  qed
  ultimately show ?thesis
    using a gs p(1,2) by blast
qed

subsection \<open>Reading a formatted price back\<close>

lemma filter_groups:
  assumes "list_all (\<lambda>g. length g = 3 \<and> list_all isdigit g) gs"
  shows "filter (\<lambda>c. c \<noteq> DOT) (concat (map (\<lambda>g. DOT # g) gs)) = concat gs"
  using assms
proof (induction gs)
  case Nil
  show ?case by simp
next
  case (Cons g gs)
  then have "list_all isdigit g" by simp
  then have "filter (\<lambda>c. c \<noteq> DOT) g = g"
    by (induction g) (auto dest: isdigit_not_special)
  with Cons show ?case by simp
qed

lemma filter_digits:
  assumes "list_all isdigit ds"
  shows "filter (\<lambda>c. c \<noteq> DOT) ds = ds"
  using assms by (induction ds) (auto dest: isdigit_not_special)

lemma map_comma_digits:
  assumes "list_all isdigit ds"
  shows "map (\<lambda>c. if c = COMMA then DOT else c) ds = ds"
  using assms by (induction ds) (auto dest: isdigit_not_special)

lemma list_all_concat_digits:
  assumes "list_all (\<lambda>g. length g = 3 \<and> list_all isdigit g) gs"
  shows "list_all isdigit (concat gs)"
  using assms by (induction gs) simp_all

lemma no_R_in_groups:
  assumes "list_all (\<lambda>g. length g = 3 \<and> list_all isdigit g) gs"
  shows "LETTER_R \<notin> set (concat (map (\<lambda>g. DOT # g) gs))"
  using assms by (induction gs) (auto simp: list_all_iff dest: isdigit_not_special)

lemma parse_shaped_price:
  assumes a: "a \<noteq> []" "length a \<le> 3" "list_all isdigit a"
    and gs: "list_all (\<lambda>g. length g = 3 \<and> list_all isdigit g) gs"
    and f: "length f = 2" "list_all isdigit f"
  shows "parse_brl_price_text_to_float
           (str ''R$ '' @ a @ concat (map (\<lambda>g. DOT # g) gs) @ str '','' @ f)
         = Inr (Some (float_of_rat False (of_int (int_of_digits ((a @ concat gs) @ f)) / 100)))"
proof -
  let ?G = "concat (map (\<lambda>g. DOT # g) gs)"
  let ?U = "a @ ?G @ str '','' @ f"
  let ?D = "a @ concat gs"
  from f have fne: "f \<noteq> []" by auto
  have s: "search BR_PRICE_RE (str ''R$ '' @ ?U) = Some (str ''R$ '' @ ?U)"
    using a gs f by (rule price_pattern_matches)
  have noR: "LETTER_R \<notin> set (str '' '' @ ?U)"
    using a(3) f(2) no_R_in_groups [OF gs]
    by (auto simp: list_all_iff str_def dest: isdigit_not_special)
  have "replace (str ''R$'') [] (str ''R$ '' @ ?U) = replace (str ''R$'') [] (str '' '' @ ?U)"
    by (simp add: startswith_def str_def)
  also have "\<dots> = str '' '' @ ?U"
    using replace_absent [OF noR, of "[DOLLAR]" "[]"] by (simp add: str_def)
  finally have r1: "replace (str ''R$'') [] (str ''R$ '' @ ?U) = str '' '' @ ?U" .
  have hd: "\<not> isspace (hd ?U)"
    using a(1,3) by (cases a) (auto dest: isdigit_not_special)
  have "last ?U = last f" using fne by simp
  moreover have "isdigit (last f)"
    using fne f(2) by (induction f) auto
  ultimately have lst: "\<not> isspace (last ?U)"
    by (auto dest: isdigit_not_special)
  have r2: "strip (str '' '' @ ?U) = ?U"
    using strip_leading_space [OF _ hd lst] a(1) by (simp add: str_def)
  have r3: "replace (str ''.'') [] ?U = ?D @ str '','' @ f"
    by (simp add: replace_char_delete filter_groups [OF gs] filter_digits [OF a(3)]
        filter_digits [OF f(2)] str_def)
  have D: "?D \<noteq> []" "list_all isdigit ?D"
    using a(1,3) list_all_concat_digits [OF gs] by simp_all
  have r4: "replace (str '','') (str ''.'') (?D @ str '','' @ f) = ?D @ str ''.'' @ f"
    using map_comma_digits [OF D(2)] map_comma_digits [OF f(2)]
    by (simp add: replace_char str_def)
  have r5: "py_float (?D @ str ''.'' @ f)
      = Inr (float_of_rat False (of_int (int_of_digits (?D @ f)) * pow10 (0 - int (length f))))"
    using D fne f(2) by (rule py_float_decimal)
  have p: "x * pow10 (0 - int (length f)) = x / 100" for x
    using f(1) by (simp add: pow10_def)
  have r6: "py_float (?D @ str ''.'' @ f)
      = Inr (float_of_rat False (of_int (int_of_digits (?D @ f)) / 100))"
    unfolding r5 p ..
  have "parse_brl_price_text_to_float (str ''R$ '' @ ?U)
      = (case py_float (replace (str '','') (str ''.'') (replace (str ''.'') []
            (strip (replace (str ''R$'') [] (str ''R$ '' @ ?U))))) of
           Inr v \<Rightarrow> Inr (Some v)
         | Inl e \<Rightarrow> if e = ValueError then Inr None else Inl e)"
    unfolding parse_brl_price_text_to_float_def s by (simp del: replace.simps)
  also have "\<dots> = Inr (Some (float_of_rat False (of_int (int_of_digits (?D @ f)) / 100)))"
    unfolding r1 r2 r3 r4 r6 by simp
  finally show ?thesis .
qed

text \<open>
  Formatting a float that is not negative and reading the text back gives the float
  nearest to the value rounded to hundredths.
\<close>

lemma parse_fmt_brl:
  "parse_brl_price_text_to_float (fmt_brl (Finite False q))
     = Inr (Some (float_of_rat False (of_int (cents q) / 100)))"
proof -
  from fmt_brl_shape [of q] obtain a gs f where
    t: "fmt_brl (Finite False q) = str ''R$ '' @ a @ concat (map (\<lambda>g. DOT # g) gs) @ str '',''
        @ f"
    and a: "a \<noteq> []" "length a \<le> 3" "list_all isdigit a"
    and gs: "list_all (\<lambda>g. length g = 3 \<and> list_all isdigit g) gs"
    and f: "length f = 2" "list_all isdigit f"
    and v: "int_of_digits ((a @ concat gs) @ f) = cents q"
    by blast
  show ?thesis
    unfolding t parse_shaped_price [OF a gs f] v ..
qed

lemma parse_fmt_two_decimals:
  assumes "nonneg_two_decimals v"
  shows "parse_brl_price_text_to_float (fmt_brl v) = Inr (Some v)"
proof (cases v)
  case (Finite s q)
  with assms have "\<not> s" "float_of_rat False (of_int (cents q) / 100) = Finite False q"
    by simp_all
  with Finite show ?thesis
    by (simp add: parse_fmt_brl)
qed (use assms in simp_all)

subsection \<open>Floats of amounts in hundredths\<close>

lemma pow2_powi: "pow2 e = 2 powi e"
  by (simp add: pow2_def power_int_def inverse_eq_divide power_divide)

lemma pow2_pos: "0 < pow2 e"
  by (simp add: pow2_powi)

lemma pow2_mono: "a \<le> b \<Longrightarrow> pow2 a \<le> pow2 b"
  by (simp add: pow2_powi power_int_increasing)

lemma pow2_less_exp: "pow2 a \<le> x \<Longrightarrow> x < pow2 b \<Longrightarrow> a < b"
  using pow2_mono [of b a] by (cases "a < b") auto

lemma ilog2_lower:
  assumes "0 < x"
  shows "pow2 (ilog2 x) \<le> x"
proof -
  obtain p d where pd: "quotient_of x = (p, d)"
    by (cases "quotient_of x")
  then have d: "0 < d" and x: "x = of_int p / of_int d"
    by (rule quotient_of_denom_pos, rule quotient_of_div)
  from assms x d have p: "0 < p"
    by (simp add: zero_less_divide_iff)
  let ?k = "bitlen p - bitlen d"
  show ?thesis
  proof (cases "pow2 ?k \<le> x")
    case True
    then show ?thesis
      by (simp add: ilog2_def pd)
  next
    case False
    from bitlen_bounds [OF p] have lo: "2 ^ nat (bitlen p - 1) \<le> p"
      by simp
    from bitlen_bounds [OF d] have hi: "d < 2 ^ nat (bitlen d)"
      by simp
    have bp: "1 \<le> bitlen p"
      using p by (auto simp: bitlen_alt_def)
    have bd: "0 \<le> bitlen d"
      by (rule bitlen_nonneg)
    have k1: "?k - 1 = (bitlen p - 1) - bitlen d"
      by simp
    have "pow2 (?k - 1) = pow2 (bitlen p - 1) / pow2 (bitlen d)"
      unfolding k1 pow2_powi by (rule power_int_diff) simp
    also have "\<dots> = 2 ^ nat (bitlen p - 1) / 2 ^ nat (bitlen d)"
      using bp bd by (simp add: pow2_def)
    also have "\<dots> \<le> of_int p / 2 ^ nat (bitlen d)"
    proof -
      have "(2::rat) ^ nat (bitlen p - 1) \<le> of_int p"
        using lo by (metis of_int_le_iff of_int_numeral of_int_power)
      then show ?thesis
        by (simp add: divide_right_mono)
    qed
    also have "\<dots> \<le> of_int p / of_int d"
    proof -
      have "of_int d \<le> (2::rat) ^ nat (bitlen d)"
        using hi by (metis less_imp_le of_int_le_iff of_int_numeral of_int_power)
      moreover have "(0::rat) < of_int d" using d by simp
      moreover have "(0::rat) \<le> of_int p" using p by simp
      ultimately show ?thesis
        by (simp add: divide_left_mono)
    qed
    finally have "pow2 (?k - 1) \<le> x"
      by (simp add: x)
    with False show ?thesis
      by (simp add: ilog2_def pd)
  qed
qed

lemma round_half_even_near: "\<bar>of_int (round_half_even y) - y\<bar> \<le> 1 / 2"
proof -
  have "of_int \<lfloor>y\<rfloor> \<le> y" "y < of_int \<lfloor>y\<rfloor> + 1"
    by linarith+
  then show ?thesis
    by (auto simp: round_half_even_def Let_def)
qed

lemma round_half_even_unique:
  assumes "\<bar>y - of_int c\<bar> < 1 / 2"
  shows "round_half_even y = c"
proof -
  from assms have 1: "of_int c - 1 / 2 < y" and 2: "y < of_int c + 1 / 2"
    by linarith+
  show ?thesis
  proof (cases "of_int c \<le> y")
    case True
    with 2 have "\<lfloor>y\<rfloor> = c" by linarith
    with 2 show ?thesis
      by (simp add: round_half_even_def Let_def)
  next
    case False
    with 1 have "\<lfloor>y\<rfloor> = c - 1" by linarith
    with 1 show ?thesis
      by (simp add: round_half_even_def Let_def)
  qed
qed

text \<open>
  The float of an amount of \<open>c\<close> hundredths is a float with two decimal digits,
  for every amount below \<open>pow2 46\<close>.
\<close>

lemma two_decimals_float_of_cents:
  assumes c: "0 \<le> c" and b: "of_int c / 100 < pow2 46"
  shows "nonneg_two_decimals (float_of_rat False (of_int c / 100))"
proof (cases "c = 0")
  case True
  have "round_half_even 0 = 0"
    by (simp add: round_half_even_def)
  with True show ?thesis
    by (simp add: float_of_rat_def cents_def)
next
  case False
  define D :: rat where "D = of_int c / 100"
  define e where "e = max (ilog2 D) (- 1022)"
  define u where "u = pow2 (e - 52)"
  define r where "r = of_int (round_half_even (D / u)) * u"
  from False c have D: "0 < D"
    by (simp add: D_def)
  have u: "0 < u"
    by (simp add: u_def pow2_pos)
  have "D < pow2 46"
    using b by (simp only: D_def)
  with ilog2_lower [OF D] have "ilog2 D < 46"
    by (rule pow2_less_exp)
  then have e: "e \<le> 45"
    by (simp add: e_def)
  then have "u \<le> pow2 (- 7)"
    unfolding u_def by (intro pow2_mono) simp
  then have u7: "u \<le> 1 / 128"
    by (simp add: pow2_def)
  have "\<bar>of_int (round_half_even (D / u)) - D / u\<bar> \<le> 1 / 2"
    by (rule round_half_even_near)
  then have "\<bar>of_int (round_half_even (D / u)) - D / u\<bar> * u \<le> 1 / 2 * u"
    using u by (simp add: mult_right_mono)
  moreover have "\<bar>of_int (round_half_even (D / u)) - D / u\<bar> * u = \<bar>r - D\<bar>"
  proof -
    have "(of_int (round_half_even (D / u)) - D / u) * u = r - D"
      using u by (simp add: r_def left_diff_distrib)
    then have "\<bar>r - D\<bar> = \<bar>of_int (round_half_even (D / u)) - D / u\<bar> * \<bar>u\<bar>"
      by (simp only: abs_mult [symmetric])
    with u show ?thesis by simp
  qed
  ultimately have near: "\<bar>r - D\<bar> \<le> 1 / 256"
    using u7 by simp
  have "0 \<le> round_half_even (D / u)"
    using D u by (intro round_half_even_nonneg) simp
  then have r0: "0 \<le> r"
    using u by (simp add: r_def)
  have "r \<le> D + 1 / 256"
    using near by linarith
  moreover have "D < pow2 46"
    using b by (simp only: D_def)
  moreover have "pow2 46 + 1 / 256 \<le> pow2 47"
    by (simp add: pow2_def)
  ultimately have "r < pow2 47"
    by linarith
  moreover have "pow2 47 \<le> pow2 1024"
    by (intro pow2_mono) simp
  ultimately have fin: "\<not> pow2 1024 \<le> r"
    by linarith
  have f: "float_of_rat False D = Finite False r"
    using D fin by (simp add: float_of_rat_def Let_def e_def [symmetric] u_def [symmetric]
        r_def [symmetric])
  have "\<bar>r * 100 - of_int c\<bar> = \<bar>r - D\<bar> * 100"
  proof -
    have "(r - D) * 100 = r * 100 - of_int c"
      by (simp add: D_def left_diff_distrib)
    then have "\<bar>r * 100 - of_int c\<bar> = \<bar>r - D\<bar> * \<bar>100\<bar>"
      by (simp only: abs_mult [symmetric])
    then show ?thesis by simp
  qed
  also have "\<dots> < 1 / 2"
    using near by simp
  finally have "round_half_even (r * 100) = c"
    by (rule round_half_even_unique)
  then have "cents r = c"
    using r0 by (simp add: cents_def)
  with f r0 show ?thesis
    by (simp add: D_def)
qed

subsection \<open>Whitespace and digits outside ASCII\<close>

text \<open>
  \<^verbatim>\<open>str.strip\<close> and \<^verbatim>\<open>\s\<close> take the no-break space U+00A0 and the ideographic space
  U+3000; \<^verbatim>\<open>float\<close> takes them too, but not the separator U+001C; \<^verbatim>\<open>\d\<close> and \<^verbatim>\<open>float\<close>
  take the Arabic-Indic digits.
\<close>

lemma strip_no_break_space: "strip ([0xA0] @ str ''Gadget'' @ [0x3000]) = str ''Gadget''"
  by code_simp

lemma blank_no_break_space:
  "extract_name_from_jsonld
     [[(str ''@type'', JStr (str ''Product'')), (str ''name'', JStr [0xA0])]] = Inr None"
  by code_simp

lemma py_float_separator: "py_float ([0x1C] @ str ''5'') = Inl ValueError"
  by code_simp

lemma py_float_no_break_space:
  "py_float (str ''129.90'' @ [0xA0]) = Inr (float_of_rat False (1299 / 10))"
  by (rule py_float_eval [where ds = "str ''12990''" and k = 2 and e = 0 and r = "[]"
        and body = "str ''129.90''"]) code_simp+

lemma py_float_arabic_indic:
  "py_float [0x661, 0x662, DOT, 0x663, 0x664] = Inr (float_of_rat False (1234 / 100))"
  by (rule py_float_eval [where ds = "str ''1234''" and k = 2 and e = 0 and r = "[]"
        and body = "str ''12.34''"]) code_simp+

lemma search_no_break_space:
  "search BR_PRICE_RE (str ''R$'' @ [0xA0] @ str ''5,00 R$ 1.234,56'')
     = Some (str ''R$'' @ [0xA0] @ str ''5,00'')"
  by code_simp

lemma search_arabic_indic:
  "search BR_PRICE_RE (str ''R$ '' @ [0x661, 0x662, COMMA, 0x663, 0x664])
     = Some (str ''R$ '' @ [0x661, 0x662, COMMA, 0x663, 0x664])"
  by code_simp

section \<open>The claims\<close>

subsection \<open>Block decoding\<close>

lemma dicts_in_mappings: "dicts_in xs = mappings_of (JList xs)"
  by (induction xs rule: dicts_in.induct) simp_all

lemma join_empty: "join [] xs = concat xs"
  by (induction "[] :: pystr" xs rule: join.induct) simp_all

lemma script_strings_descendants:
  "list_all is_script_string cs \<Longrightarrow> concat (map (\<lambda>c. c # descendants c) cs) = cs"
proof (induction cs)
  case Nil
  show ?case by simp
next
  case (Cons c cs)
  then show ?case by (cases c) simp_all
qed

lemma script_strings_text:
  "list_all is_script_string cs \<Longrightarrow>
   concat (concat (map (strings_of [Script]) cs)) = concat (map text_content cs)"
proof (induction cs)
  case Nil
  show ?case by simp
next
  case (Cons c cs)
  then show ?case by (cases c) simp_all
qed

lemma get_text_script:
  assumes "list_all is_script_string cs"
  shows "get_text (Tag (str ''script'') a cs) [] False = concat (map text_content cs)"
  using assms
  by (simp add: get_text_def all_strings_def join_empty script_strings_descendants
      script_strings_text)

lemma script_text_single:
  "script_text (Tag (str ''script'') a [Str k s]) = strip s"
  by (cases "s = []") (simp_all add: script_text_def get_text_def all_strings_def)

text \<open>
  On a script element that holds raw text, the text that the loop takes from the tag is
  the text content of the element, trimmed.
\<close>

lemma script_text_block_text:
  assumes "is_json_ld_script tag" "holds_raw_text tag"
  shows "script_text tag = block_text tag"
proof (cases tag)
  case (Str k s)
  with assms show ?thesis by simp
next
  case (Tag n a cs)
  with assms have n: "n = str ''script''" and cs: "list_all is_string cs"
    and sc: "length cs \<le> 1 \<or> list_all is_script_string cs"
    by simp_all
  show ?thesis
  proof (cases cs)
    case Nil
    with Tag n show ?thesis
      by (simp add: script_text_def block_text_def get_text_def all_strings_def)
  next
    case (Cons c ds)
    note c = this
    show ?thesis
    proof (cases ds)
      case Nil
      from cs c obtain k s where s: "c = Str k s"
        by (cases c) simp_all
      with Tag n c Nil show ?thesis
        by (simp add: block_text_def script_text_single)
    next
      case (Cons d es)
      with c sc have "list_all is_script_string cs"
        by simp
      from get_text_script [OF this, of a] Tag n c Cons show ?thesis
        by (simp add: script_text_def block_text_def)
    qed
  qed
qed

lemma find_all_json_ld:
  "find_all soup (str ''script'') [(str ''type'', str ''application/ld+json'')]
     = filter is_json_ld_script (descendants soup)"
proof -
  have "matches_tag (str ''script'') [(str ''type'', str ''application/ld+json'')] e
      = is_json_ld_script e" for e
    by (cases e) simp_all
  then have "matches_tag (str ''script'') [(str ''type'', str ''application/ld+json'')]
      = is_json_ld_script"
    by (rule ext)
  then show ?thesis
    by (simp only: find_all_def)
qed

lemma json_ld_step:
  assumes "is_json_ld_script tag" "holds_raw_text tag"
  shows "json_ld_loop loads (tag # tags) blocks
           = json_ld_loop loads tags (blocks @ decode_block loads tag)"
  by (simp add: decode_block_def json_loads_flex_def dicts_in_mappings Let_def
      script_text_block_text [OF assms]
      del: mappings_of.simps(2) split: sum.splits json.splits)

lemma json_ld_loop_concat:
  assumes "list_all (\<lambda>tag. is_json_ld_script tag \<and> holds_raw_text tag) tags"
  shows "json_ld_loop loads tags blocks = blocks @ concat (map (decode_block loads) tags)"
  using assms
proof (induction tags arbitrary: blocks)
  case Nil
  show ?case by simp
next
  case (Cons tag tags)
  then have t: "is_json_ld_script tag" "holds_raw_text tag"
    and ts: "list_all (\<lambda>tag. is_json_ld_script tag \<and> holds_raw_text tag) tags"
    by simp_all
  show ?case
    unfolding json_ld_step [OF t] Cons.IH [OF ts] by simp
qed

text \<open>
  Claim C9. For every document in which the JSON-LD script elements hold raw text, as
  in every tree that the parser builds, and for every decoder, \<open>json_ld_blocks\<close> returns
  exactly the mappings that \<open>decodeStructuredBlocks\<close> describes: in document order, the
  mapping that the text of each JSON-LD script element decodes to, or the mappings in
  the array it decodes to; empty blocks and blocks on which the decoder raises
  contribute nothing. The function has no exceptional result: the exception of the
  decoder is absorbed.
\<close>

theorem json_ld_blocks_decodes:
  assumes "list_all holds_raw_text (filter is_json_ld_script (descendants soup))"
  shows "json_ld_blocks loads soup = decodeStructuredBlocks loads soup"
proof -
  from assms have "list_all (\<lambda>tag. is_json_ld_script tag \<and> holds_raw_text tag)
      (filter is_json_ld_script (descendants soup))"
    by (simp add: list_all_iff)
  then show ?thesis
    by (simp add: json_ld_blocks_def decodeStructuredBlocks_def find_all_json_ld
        json_ld_loop_concat)
qed

text \<open>
  A document with a blank block, a block that is not JSON, a block with an array, an
  empty script element, a block with an object and a script that is not JSON-LD: the
  mapping of the array and the object are returned, in this order.
\<close>

theorem json_ld_blocks_decodes_witness:
  "list_all holds_raw_text (filter is_json_ld_script (descendants doc_blocks))
   \<and> example_loads (str ''{not valid json'') = Inl JSONDecodeError
   \<and> decodeStructuredBlocks example_loads doc_blocks
       = [[(str ''@type'', JStr (str ''Product'')), (str ''name'', JStr (str '' Widget Pro ''))],
          [(str ''@type'', JStr (str ''Product'')), (str ''name'', JInt 123)]]
   \<and> json_ld_blocks example_loads doc_blocks
       = [[(str ''@type'', JStr (str ''Product'')), (str ''name'', JStr (str '' Widget Pro ''))],
          [(str ''@type'', JStr (str ''Product'')), (str ''name'', JInt 123)]]"
proof -
  have h: "list_all holds_raw_text (filter is_json_ld_script (descendants doc_blocks))"
    by code_simp
  have e: "example_loads (str ''{not valid json'') = Inl JSONDecodeError"
    by code_simp
  have d: "decodeStructuredBlocks example_loads doc_blocks
       = [[(str ''@type'', JStr (str ''Product'')), (str ''name'', JStr (str '' Widget Pro ''))],
          [(str ''@type'', JStr (str ''Product'')), (str ''name'', JInt 123)]]"
    by code_simp
  from json_ld_blocks_decodes [OF h, of example_loads] h e d show ?thesis
    by (simp only: simp_thms)
qed

subsection \<open>Names\<close>

lemma name_from_jsonld_find_None:
  "List.find is_named_product blocks = None \<Longrightarrow> extract_name_from_jsonld blocks = Inr None"
  by (induction blocks) (auto simp: is_named_product_def Let_def split: if_splits)

lemma name_from_jsonld_find_Some:
  "List.find is_named_product blocks = Some obj \<Longrightarrow>
   extract_name_from_jsonld blocks =
     (case dict_get obj (str ''name'') of
        JStr s \<Rightarrow> Inr (if strip s \<noteq> [] then Some (strip s) else None)
      | _ \<Rightarrow> Inl AttributeError)"
  by (induction blocks) (auto simp: is_named_product_def Let_def split: if_splits)

text \<open>
  Claim C2. The claim says that name extraction never raises, whatever the JSON type
  of a \<open>name\<close> value. On a document whose JSON-LD Product block has the number 123 as
  its name, name extraction raises \<^verbatim>\<open>AttributeError\<close>.
\<close>

theorem numeric_name_raises:
  "extract_name example_loads doc_numeric_name = Inl AttributeError"
  by code_simp

text \<open>
  Claim C8, as stated, fails: the Product block of this document carries the non-empty
  name \<^verbatim>\<open>" "\<close>, and name extraction returns the text of the h1.
\<close>

theorem blank_name_counterexample:
  "List.find is_named_product (json_ld_blocks example_loads doc_blank_name)
     = Some [(str ''@type'', JStr (str ''Product'')), (str ''name'', JStr (str '' ''))]
   \<and> name_h1 doc_blank_name = Some (str ''Gadget'')
   \<and> extract_name example_loads doc_blank_name = Inr (Some (str ''Gadget''))"
  by code_simp

text \<open>
  Claim C8, amended. When the first JSON-LD Product block with a non-empty name has a
  string as its name and the string is not blank, name extraction returns that name
  with the surrounding whitespace removed, whatever the h1 of the document says.
\<close>

theorem jsonld_name_first:
  assumes "List.find is_named_product (json_ld_blocks loads soup) = Some obj"
    and "dict_get obj (str ''name'') = JStr n"
    and "strip n \<noteq> []"
  shows "extract_name loads soup = Inr (Some (strip n))"
  using assms by (simp add: extract_name_def name_from_jsonld_find_Some)

text \<open>A document with such a block and a conflicting h1.\<close>

theorem jsonld_name_first_witness:
  "List.find is_named_product (json_ld_blocks example_loads doc_widget_pro)
     = Some [(str ''@type'', JStr (str ''Product'')), (str ''name'', JStr (str '' Widget Pro ''))]
   \<and> name_h1 doc_widget_pro = Some (str ''Gadget'')
   \<and> extract_name example_loads doc_widget_pro = Inr (Some (str ''Widget Pro''))"
proof -
  have f: "List.find is_named_product (json_ld_blocks example_loads doc_widget_pro)
     = Some [(str ''@type'', JStr (str ''Product'')), (str ''name'',
         JStr (str '' Widget Pro ''))]"
    by code_simp
  have n: "dict_get [(str ''@type'', JStr (str ''Product'')), (str ''name'',
      JStr (str '' Widget Pro ''))] (str ''name'')
     = JStr (str '' Widget Pro '')"
    by code_simp
  have s: "strip (str '' Widget Pro '') = str ''Widget Pro''"
    by code_simp
  have h: "name_h1 doc_widget_pro = Some (str ''Gadget'')"
    by code_simp
  from jsonld_name_first [OF f n] s f h show ?thesis by simp
qed

text \<open>
  Claim C3, as stated, fails: for the title \<^verbatim>\<open>Widget - Acme | Store\<close> and no other source
  of a name, name extraction returns \<^verbatim>\<open>Widget - Acme\<close>, not \<^verbatim>\<open>Widget\<close>.
\<close>

theorem title_split_counterexample:
  "extract_name example_loads doc_title = Inr (Some (str ''Widget - Acme''))
   \<and> extract_name example_loads doc_title \<noteq> Inr (Some (str ''Widget''))"
  by code_simp

lemma cut_title_example:
  "cut_title title_separators (strip (str ''Widget - Acme | Store'')) = str ''Widget - Acme''"
  by code_simp

text \<open>
  Claim C3, amended. For a document without a JSON-LD Product name, without an og:title
  meta tag and without an h1, whose title text is \<^verbatim>\<open>Widget - Acme | Store\<close>, name
  extraction returns \<^verbatim>\<open>Widget - Acme\<close>: the separators are tried in the order of the
  tuple, and \<^verbatim>\<open>" | "\<close> comes first.
\<close>

theorem title_split_priority:
  assumes "extract_name_from_jsonld (json_ld_blocks loads soup) = Inr None"
    and "find soup (str ''meta'') [(str ''property'', str ''og:title'')] = None"
    and "find soup (str ''h1'') [] = None"
    and "find soup (str ''title'') [] = Some t"
    and "dot_string t = Some (str ''Widget - Acme | Store'')"
  shows "extract_name loads soup = Inr (Some (str ''Widget - Acme''))"
  using assms
  by (simp add: extract_name_def name_og_title_def name_h1_def name_title_def cut_title_example)

text \<open>The title alone in a document.\<close>

theorem title_split_priority_witness:
  "extract_name_from_jsonld (json_ld_blocks example_loads doc_title) = Inr None
   \<and> find doc_title (str ''meta'') [(str ''property'', str ''og:title'')] = None
   \<and> find doc_title (str ''h1'') [] = None
   \<and> find doc_title (str ''title'') [] = Some (text_tag (str ''title'')
       (str ''Widget - Acme | Store''))
   \<and> dot_string (text_tag (str ''title'') (str ''Widget - Acme | Store''))
       = Some (str ''Widget - Acme | Store'')
   \<and> extract_name example_loads doc_title = Inr (Some (str ''Widget - Acme''))"
proof -
  have a: "extract_name_from_jsonld (json_ld_blocks example_loads doc_title) = Inr None"
    by code_simp
  have b: "find doc_title (str ''meta'') [(str ''property'', str ''og:title'')] = None"
    by code_simp
  have c: "find doc_title (str ''h1'') [] = None"
    by code_simp
  have d: "find doc_title (str ''title'') [] = Some (text_tag (str ''title'')
      (str ''Widget - Acme | Store''))"
    by code_simp
  have e: "dot_string (text_tag (str ''title'') (str ''Widget - Acme | Store''))
      = Some (str ''Widget - Acme | Store'')"
    by code_simp
  from title_split_priority [OF a b c d e] a b c d e show ?thesis by simp
qed

subsection \<open>The price text\<close>

text \<open>
  Claim C10. Whenever price extraction returns a price value, the price text it returns
  is \<open>fmt_brl\<close> of that value, whichever strategy found the price.
\<close>

theorem price_text_regenerated:
  "extract_price_and_currency soup = Inr (pt, Some v, c, h) \<Longrightarrow> pt = Some (fmt_brl v)"
  by (auto dest!: extract_price_shape)

lemma search_1234_50: "search BR_PRICE_RE (str ''R$1.234,50'') = Some (str ''R$1.234,50'')"
  by code_simp

lemma itemprop_example:
  "extract_price_and_currency doc_itemprop
     = Inr (Some (str ''R$ 1.234,50''), Some (Finite False (2469 / 2)), Some (str ''BRL''),
            Some (str ''itemprop='' @ quoted (str ''price'') @ str '' (regex)''))"
proof -
  have a: "price_meta_amount doc_itemprop = None" by code_simp
  have b: "select_one_attr doc_itemprop (str ''itemprop'') (str ''price'')
             = Some (Tag (str ''span'') [(str ''itemprop'', str ''price'')]
                 [Str NavigableString (str ''R$1.234,50'')])"
    by code_simp
  have c: "get_text (Tag (str ''span'') [(str ''itemprop'', str ''price'')]
      [Str NavigableString (str ''R$1.234,50'')]) (str '' '') True
             = str ''R$1.234,50''" by code_simp
  have d: "py_float (replace (str '','') (str ''.'') (str ''R$1.234,50'')) = Inl ValueError"
      by code_simp
  have e: "replace (str '','') (str ''.'') (replace (str ''.'') [] (strip (replace (str ''R$'') []
      (str ''R$1.234,50'')))) = str ''1234.50''"
    by code_simp
  have p: "parse_brl_price_text_to_float (str ''R$1.234,50'')
      = Inr (Some (Finite False (2469 / 2)))"
    by (simp add: parse_brl_price_text_to_float_def search_1234_50 e py_float_1234_50_val
        del: replace.simps search.simps)
  show ?thesis
    by (simp add: extract_price_and_currency_def price_steps_BCD_def a price_itemprop_def b c d p
        fmt_1234_50 quoted_def del: replace.simps)
qed

text \<open>
  The itemprop strategy on the text \<^verbatim>\<open>R$1.234,50\<close>: the price text returned is
  \<^verbatim>\<open>R$ 1.234,50\<close>, not the text of the page.
\<close>

theorem price_text_regenerated_witness:
  "extract_price_and_currency doc_itemprop
     = Inr (Some (str ''R$ 1.234,50''), Some (Finite False (2469 / 2)), Some (str ''BRL''),
            Some (str ''itemprop='' @ quoted (str ''price'') @ str '' (regex)''))
   \<and> Some (str ''R$ 1.234,50'') = Some (fmt_brl (Finite False (2469 / 2)))
   \<and> get_text doc_itemprop (str '' '') True = str ''R$1.234,50''"
proof -
  have t: "get_text doc_itemprop (str '' '') True = str ''R$1.234,50''" by code_simp
  from price_text_regenerated [OF itemprop_example] itemprop_example t show ?thesis by simp
qed

subsection \<open>The meta tag of the amount\<close>

lemma py_float_empty: "py_float [] = Inl ValueError"
  by code_simp

lemma meta_currency_cases:
  "meta_currency soup prop =
     (case find soup (str ''meta'') [(str ''property'', prop)] of
        None \<Rightarrow> str ''BRL''
      | Some mc \<Rightarrow> (case get mc (str ''content'') of
                      None \<Rightarrow> str ''BRL''
                    | Some cc \<Rightarrow> if strip cc = [] then str ''BRL'' else strip cc))"
proof -
  have "strip [] = []" by (simp add: strip_def)
  then show ?thesis
    by (auto simp: meta_currency_def split: option.splits)
qed

lemma float_7_5: "float_of_rat False (75 / 10) = Finite False (15 / 2)"
  by (rule float_of_rat_eval [where k = 2 and m = "15 * 2 ^ 49"])
     (code_simp | simp add: pow2_def)+

lemma py_float_7_5: "py_float (str ''7.5'') = Inr (float_of_rat False (75 / 10))"
  by (rule py_float_eval [where ds = "str ''75''" and k = 1 and e = 0 and r = "[]"
        and body = "str ''7.5''"]) code_simp+

lemma py_float_7_5_val: "py_float (str ''7.5'') = Inr (Finite False (15 / 2))"
  by (simp only: py_float_7_5 float_7_5)

lemma fmt_7_5: "fmt_brl (Finite False (15 / 2)) = str ''R$ 7,50''"
  by code_simp

text \<open>
  Claim C6, as stated, fails: this document contains a meta tag \<^verbatim>\<open>product:price:amount\<close>
  whose content \<^verbatim>\<open>129.90\<close> parses as a float, but it is the second such tag; the lookup
  takes the first, whose content \<^verbatim>\<open>abc\<close> does not parse, and no price is returned.
\<close>

theorem later_amount_counterexample:
  "find_all doc_two_amounts (str ''meta'') [(str ''property'', str ''product:price:amount'')]
     = [meta_tag (str ''product:price:amount'') (str ''abc''),
        meta_tag (str ''product:price:amount'') (str ''129.90'')]
   \<and> py_float (replace (str '','') (str ''.'') (str ''129.90''))
       = Inr (Finite False (4570449934339277 / 35184372088832))
   \<and> extract_price_and_currency doc_two_amounts = Inr (None, None, None, None)"
proof -
  have a: "find_all doc_two_amounts (str ''meta'')
      [(str ''property'', str ''product:price:amount'')]
     = [meta_tag (str ''product:price:amount'') (str ''abc''),
        meta_tag (str ''product:price:amount'') (str ''129.90'')]"
    by code_simp
  have r: "replace (str '','') (str ''.'') (str ''129.90'') = str ''129.90''" by code_simp
  have e: "extract_price_and_currency doc_two_amounts = Inr (None, None, None, None)"
    by code_simp
  from a e show ?thesis
    by (simp only: r py_float_129_90_val simp_thms)
qed

text \<open>
  Claim C6, amended. Let the first meta tag \<^verbatim>\<open>product:price:amount\<close> of the document (the
  one the lookup finds) have a content. If the content, commas replaced by points, parses
  as a float, price extraction returns that value, its formatted text, and as currency
  the trimmed content of the first meta tag \<^verbatim>\<open>product:price:currency\<close> when there is one
  and it is not blank, \<^verbatim>\<open>BRL\<close> otherwise. In particular the content \<^verbatim>\<open>129.90\<close> without a
  currency tag gives the float 129.90, the text \<^verbatim>\<open>R$ 129,90\<close> and \<^verbatim>\<open>BRL\<close>. If the content
  does not parse, extraction does not raise and goes on with the second strategy: when
  the raw string of the first element with \<^verbatim>\<open>itemprop="price"\<close> parses as a float, that
  float is returned with the currency \<^verbatim>\<open>BRL\<close> and the hint of the second strategy.
\<close>

theorem meta_amount_strategy:
  assumes "find soup (str ''meta'') [(str ''property'', str ''product:price:amount'')] = Some m"
    and "get m (str ''content'') = Some c"
  shows "(\<forall>v. py_float (replace (str '','') (str ''.'') c) = Inr v \<longrightarrow>
            extract_price_and_currency soup
              = Inr (Some (fmt_brl v), Some v,
                     Some (case find soup (str ''meta'')
                                  [(str ''property'', str ''product:price:currency'')] of
                             None \<Rightarrow> str ''BRL''
                           | Some mc \<Rightarrow>
                               (case get mc (str ''content'') of
                                  None \<Rightarrow> str ''BRL''
                                | Some cc \<Rightarrow> if strip cc = [] then str ''BRL'' else strip cc)),
                     Some (str ''meta[property='' @ quoted (str ''product:price:amount'')
                           @ str '']'')))
       \<and> (c = str ''129.90''
            \<and> find soup (str ''meta'') [(str ''property'', str ''product:price:currency'')] = None
          \<longrightarrow>
            extract_price_and_currency soup
              = Inr (Some (str ''R$ 129,90''), Some (float_of_rat False (1299 / 10)),
                     Some (str ''BRL''),
                     Some (str ''meta[property='' @ quoted (str ''product:price:amount'')
                           @ str '']'')))
       \<and> (\<forall>e. py_float (replace (str '','') (str ''.'') c) = Inl e \<longrightarrow>
            (\<exists>r. extract_price_and_currency soup = Inr r)
            \<and> (\<forall>el w. select_one_attr soup (str ''itemprop'') (str ''price'') = Some el
                  \<and> py_float (replace (str '','') (str ''.'') (item_price_text el)) = Inr w
                \<longrightarrow>
                  extract_price_and_currency soup
                    = Inr (Some (fmt_brl w), Some w, Some (str ''BRL''),
                           Some (str ''itemprop='' @ quoted (str ''price'')))))"
proof (intro conjI allI impI)
  fix v assume v: "py_float (replace (str '','') (str ''.'') c) = Inr v"
  then have "c \<noteq> []" by (auto simp: py_float_empty)
  with assms v
  show "extract_price_and_currency soup
      = Inr (Some (fmt_brl v), Some v,
             Some (case find soup (str ''meta'')
                          [(str ''property'', str ''product:price:currency'')] of
                     None \<Rightarrow> str ''BRL''
                   | Some mc \<Rightarrow>
                       (case get mc (str ''content'') of
                          None \<Rightarrow> str ''BRL''
                        | Some cc \<Rightarrow> if strip cc = [] then str ''BRL'' else strip cc)),
             Some (str ''meta[property='' @ quoted (str ''product:price:amount'') @ str '']''))"
    by (simp add: extract_price_and_currency_def price_meta_amount_def meta_currency_cases
        quoted_def)
next
  assume a: "c = str ''129.90''
    \<and> find soup (str ''meta'') [(str ''property'', str ''product:price:currency'')] = None"
  have r: "replace (str '','') (str ''.'') (str ''129.90'') = str ''129.90''" by code_simp
  from assms a show "extract_price_and_currency soup
      = Inr (Some (str ''R$ 129,90''), Some (float_of_rat False (1299 / 10)),
             Some (str ''BRL''),
             Some (str ''meta[property='' @ quoted (str ''product:price:amount'') @ str '']''))"
    by (simp add: extract_price_and_currency_def price_meta_amount_def meta_currency_cases
        r py_float_129_90_val float_129_90 fmt_129_90 quoted_def del: replace.simps)
next
  fix e assume "py_float (replace (str '','') (str ''.'') c) = Inl e"
  then show "\<exists>r. extract_price_and_currency soup = Inr r"
    using extract_price_no_raise [of soup]
    by (cases "extract_price_and_currency soup") auto
next
  fix e el w
  assume e: "py_float (replace (str '','') (str ''.'') c) = Inl e"
    and w: "select_one_attr soup (str ''itemprop'') (str ''price'') = Some el
      \<and> py_float (replace (str '','') (str ''.'') (item_price_text el)) = Inr w"
  from assms e have a: "price_meta_amount soup = None"
    by (simp add: price_meta_amount_def)
  from w have "item_price_text el \<noteq> []"
    by (auto simp: py_float_empty)
  with w have "price_itemprop soup
      = Inr (Some (Some (fmt_brl w), Some w, Some (str ''BRL''),
                   Some (str ''itemprop='' @ quoted (str ''price''))))"
    by (simp add: price_itemprop_def item_price_text_def quoted_def)
  with a show "extract_price_and_currency soup
      = Inr (Some (fmt_brl w), Some w, Some (str ''BRL''),
             Some (str ''itemprop='' @ quoted (str ''price'')))"
    by (simp add: extract_price_and_currency_def price_steps_BCD_def)
qed

text \<open>
  The example of the specification, and a document whose amount \<^verbatim>\<open>abc\<close> does not parse
  and whose element with \<^verbatim>\<open>itemprop="price"\<close> has the text \<^verbatim>\<open>7.5\<close>.
\<close>

theorem meta_amount_strategy_witness:
  "find doc_meta_amount (str ''meta'') [(str ''property'', str ''product:price:amount'')]
     = Some (meta_tag (str ''product:price:amount'') (str ''129.90''))
   \<and> get (meta_tag (str ''product:price:amount'') (str ''129.90'')) (str ''content'')
       = Some (str ''129.90'')
   \<and> find doc_meta_amount (str ''meta'') [(str ''property'', str ''product:price:currency'')]
       = None
   \<and> py_float (replace (str '','') (str ''.'') (str ''129.90''))
       = Inr (float_of_rat False (1299 / 10))
   \<and> extract_price_and_currency doc_meta_amount
       = Inr (Some (str ''R$ 129,90''), Some (float_of_rat False (1299 / 10)),
              Some (str ''BRL''),
              Some (str ''meta[property='' @ quoted (str ''product:price:amount'') @ str '']''))
   \<and> find doc_amount_then_itemprop (str ''meta'')
         [(str ''property'', str ''product:price:amount'')]
       = Some (meta_tag (str ''product:price:amount'') (str ''abc''))
   \<and> get (meta_tag (str ''product:price:amount'') (str ''abc'')) (str ''content'')
       = Some (str ''abc'')
   \<and> py_float (replace (str '','') (str ''.'') (str ''abc'')) = Inl ValueError
   \<and> select_one_attr doc_amount_then_itemprop (str ''itemprop'') (str ''price'')
       = Some (Tag (str ''span'') [(str ''itemprop'', str ''price'')]
                 [Str NavigableString (str ''7.5'')])
   \<and> py_float (replace (str '','') (str ''.'')
         (item_price_text (Tag (str ''span'') [(str ''itemprop'', str ''price'')]
                             [Str NavigableString (str ''7.5'')])))
       = Inr (Finite False (15 / 2))
   \<and> extract_price_and_currency doc_amount_then_itemprop
       = Inr (Some (str ''R$ 7,50''), Some (Finite False (15 / 2)), Some (str ''BRL''),
              Some (str ''itemprop='' @ quoted (str ''price'')))"
proof -
  have a: "find doc_meta_amount (str ''meta'') [(str ''property'', str ''product:price:amount'')]
     = Some (meta_tag (str ''product:price:amount'') (str ''129.90''))" by code_simp
  have b: "get (meta_tag (str ''product:price:amount'') (str ''129.90'')) (str ''content'')
     = Some (str ''129.90'')"
    by code_simp
  have c: "find doc_meta_amount (str ''meta'')
      [(str ''property'', str ''product:price:currency'')] = None"
    by code_simp
  have r: "replace (str '','') (str ''.'') (str ''129.90'') = str ''129.90''" by code_simp
  have d: "py_float (replace (str '','') (str ''.'') (str ''129.90''))
      = Inr (float_of_rat False (1299 / 10))"
    unfolding r by (rule py_float_129_90)
  have 1: "extract_price_and_currency doc_meta_amount
       = Inr (Some (str ''R$ 129,90''), Some (float_of_rat False (1299 / 10)),
              Some (str ''BRL''),
              Some (str ''meta[property='' @ quoted (str ''product:price:amount'') @ str '']''))"
    using meta_amount_strategy [OF a b] c by blast
  have a': "find doc_amount_then_itemprop (str ''meta'')
         [(str ''property'', str ''product:price:amount'')]
       = Some (meta_tag (str ''product:price:amount'') (str ''abc''))" by code_simp
  have b': "get (meta_tag (str ''product:price:amount'') (str ''abc'')) (str ''content'')
       = Some (str ''abc'')" by code_simp
  have e: "py_float (replace (str '','') (str ''.'') (str ''abc'')) = Inl ValueError"
    by code_simp
  have s: "select_one_attr doc_amount_then_itemprop (str ''itemprop'') (str ''price'')
       = Some (Tag (str ''span'') [(str ''itemprop'', str ''price'')]
                 [Str NavigableString (str ''7.5'')])" by code_simp
  have t: "replace (str '','') (str ''.'')
         (item_price_text (Tag (str ''span'') [(str ''itemprop'', str ''price'')]
                             [Str NavigableString (str ''7.5'')])) = str ''7.5''"
    by code_simp
  have w: "py_float (replace (str '','') (str ''.'')
         (item_price_text (Tag (str ''span'') [(str ''itemprop'', str ''price'')]
                             [Str NavigableString (str ''7.5'')])))
       = Inr (Finite False (15 / 2))"
    unfolding t by (rule py_float_7_5_val)
  have 2: "extract_price_and_currency doc_amount_then_itemprop
       = Inr (Some (fmt_brl (Finite False (15 / 2))), Some (Finite False (15 / 2)),
              Some (str ''BRL''), Some (str ''itemprop='' @ quoted (str ''price'')))"
    using meta_amount_strategy [OF a' b'] e s w by blast
  from a b c d 1 a' b' e s w 2 show ?thesis
    by (simp only: fmt_7_5 simp_thms)
qed

subsection \<open>The text of the document\<close>

lemma search_empty: "search BR_PRICE_RE [] = None"
  by code_simp

lemma number_of_1234_56:
  "replace (str '','') (str ''.'') (replace (str ''.'') [] (strip (replace (str ''R$'') []
      (str ''R$ 1.234,56'')))) = str ''1234.56''"
  by code_simp

lemma parse_brl_1234_56:
  assumes "search BR_PRICE_RE text = Some (str ''R$ 1.234,56'')"
  shows "parse_brl_price_text_to_float text
           = Inr (Some (Finite False (2714826150374277 / 2199023255552)))"
proof -
  from assms have "text \<noteq> []"
    by (auto simp: search_empty simp del: search.simps)
  with assms show ?thesis
    by (simp add: parse_brl_price_text_to_float_def number_of_1234_56 py_float_1234_56_val
        del: replace.simps search.simps)
qed

text \<open>
  Claim C7, as stated, fails: this document has no price metadata and its text contains
  \<^verbatim>\<open>R$ 1.234,56\<close>, but an earlier price comes first and is the one returned.
\<close>

theorem first_price_counterexample:
  "price_meta_amount doc_two_prices = None
   \<and> select_one_attr doc_two_prices (str ''itemprop'') (str ''price'') = None
   \<and> price_alt_metas doc_two_prices [str ''og:price:amount'', str ''product:sale_price:amount'']
       = None
   \<and> get_text doc_two_prices (str '' '') True = str ''R$ 5,00 R$ 1.234,56''
   \<and> extract_price_and_currency doc_two_prices
       = Inr (Some (str ''R$ 5,00''), Some (Finite False 5), Some (str ''BRL''),
           Some (str ''regex-dom''))"
proof -
  have a: "price_meta_amount doc_two_prices = None" by code_simp
  have b: "select_one_attr doc_two_prices (str ''itemprop'') (str ''price'') = None" by code_simp
  have c: "price_alt_metas doc_two_prices [str ''og:price:amount'',
      str ''product:sale_price:amount''] = None"
    by code_simp
  have t: "get_text doc_two_prices (str '' '') True = str ''R$ 5,00 R$ 1.234,56''" by code_simp
  have s: "search BR_PRICE_RE (str ''R$ 5,00 R$ 1.234,56'') = Some (str ''R$ 5,00'')" by code_simp
  have n: "replace (str '','') (str ''.'') (replace (str ''.'') [] (strip (replace (str ''R$'') []
      (str ''R$ 5,00'')))) = str ''5.00''"
    by code_simp
  have f: "py_float (str ''5.00'') = Inr (float_of_rat False 5)"
    by (rule py_float_eval [where ds = "str ''500''" and k = 2 and e = 0 and r = "[]"
          and body = "str ''5.00''"]) code_simp+
  have p: "parse_brl_price_text_to_float (str ''R$ 5,00 R$ 1.234,56'')
      = Inr (Some (Finite False 5))"
    by (simp add: parse_brl_price_text_to_float_def s n f float_5 del: replace.simps search.simps)
  have "extract_price_and_currency doc_two_prices
       = Inr (Some (str ''R$ 5,00''), Some (Finite False 5), Some (str ''BRL''),
           Some (str ''regex-dom''))"
    by (simp add: extract_price_and_currency_def price_steps_BCD_def price_steps_CD_def
        price_itemprop_def price_regex_dom_def a b c t p fmt_5
        del: replace.simps search.simps price_alt_metas.simps)
  with a b c t show ?thesis by simp
qed

lemma leaves_1234_56: "leaves BR_PRICE_RE (str ''R$ 1.234,56'' @ post) post"
proof -
  have "leaves BR_PRICE_RE
      (str ''R$ '' @ str ''1'' @ concat (map (\<lambda>g. DOT # g) [str ''234'']) @ str '',''
        @ str ''56'' @ post) post"
    by (rule price_pattern_leaves) (simp_all add: isdigit_def str_def)
  then show ?thesis by (simp add: str_def)
qed

lemma search_1234_56:
  assumes "list_all (\<lambda>i. \<not> matches_at BR_PRICE_RE (pre @ str ''R$ 1.234,56'' @ post) i)
      [0..<length pre]"
  shows "search BR_PRICE_RE (pre @ str ''R$ 1.234,56'' @ post) = Some (str ''R$ 1.234,56'')"
proof -
  have c: "str ''R$ 1.234,56'' = LETTER_R # str ''$ 1.234,56''"
    by (simp add: str_def)
  have l: "leaves BR_PRICE_RE (LETTER_R # str ''$ 1.234,56'' @ post) post"
    using leaves_1234_56 [of post] by (simp add: c)
  from assms
  have "list_all (\<lambda>i. \<not> matches_at BR_PRICE_RE (pre @ LETTER_R # str ''$ 1.234,56'' @ post) i)
      [0..<length pre]"
    by (simp add: c)
  from search_skip [OF this l] show ?thesis
    by (simp add: str_def)
qed

text \<open>
  Claim C7, amended. For every document without price metadata (no
  \<^verbatim>\<open>product:price:amount\<close> meta tag, no element with \<^verbatim>\<open>itemprop="price"\<close>, none of the
  alternative meta tags) whose text contains \<^verbatim>\<open>R$ 1.234,56\<close> with no match of the price
  pattern starting before that occurrence, price extraction returns the float 1234.56,
  the text \<^verbatim>\<open>R$ 1.234,56\<close>, the currency \<^verbatim>\<open>BRL\<close> and the hint of the last strategy.
\<close>

theorem first_price_in_text:
  assumes "find soup (str ''meta'') [(str ''property'', str ''product:price:amount'')] = None"
    and "select_one_attr soup (str ''itemprop'') (str ''price'') = None"
    and "find soup (str ''meta'') [(str ''property'', str ''og:price:amount'')] = None"
    and "find soup (str ''meta'') [(str ''property'', str ''product:sale_price:amount'')] = None"
    and "get_text soup (str '' '') True = pre @ str ''R$ 1.234,56'' @ post"
    and "list_all (\<lambda>i. \<not> matches_at BR_PRICE_RE (get_text soup (str '' '') True) i) [0..<length
        pre]"
  shows "extract_price_and_currency soup
           = Inr (Some (str ''R$ 1.234,56''), Some (float_of_rat False (123456 / 100)),
                  Some (str ''BRL''), Some (str ''regex-dom''))"
proof -
  have "search BR_PRICE_RE (get_text soup (str '' '') True) = Some (str ''R$ 1.234,56'')"
    using assms(6) unfolding assms(5) by (rule search_1234_56)
  from assms(1-4) parse_brl_1234_56 [OF this] show ?thesis
    by (simp add: extract_price_and_currency_def price_steps_BCD_def price_steps_CD_def
        price_meta_amount_def price_itemprop_def price_regex_dom_def fmt_1234_56
        float_1234_56 [simplified] del: replace.simps search.simps)
qed

text \<open>A paragraph with one price.\<close>

theorem first_price_in_text_witness:
  "find doc_one_price (str ''meta'') [(str ''property'', str ''product:price:amount'')] = None
   \<and> select_one_attr doc_one_price (str ''itemprop'') (str ''price'') = None
   \<and> find doc_one_price (str ''meta'') [(str ''property'', str ''og:price:amount'')] = None
   \<and> find doc_one_price (str ''meta'') [(str ''property'', str ''product:sale_price:amount'')]
       = None
   \<and> get_text doc_one_price (str '' '') True = str ''Total: '' @ str ''R$ 1.234,56''
       @ str '' hoje''
   \<and> list_all (\<lambda>i. \<not> matches_at BR_PRICE_RE (get_text doc_one_price (str '' '') True) i)
        [0..<length (str ''Total: '')]
   \<and> extract_price_and_currency doc_one_price
       = Inr (Some (str ''R$ 1.234,56''), Some (float_of_rat False (123456 / 100)),
              Some (str ''BRL''), Some (str ''regex-dom''))"
proof -
  have a: "find doc_one_price (str ''meta'') [(str ''property'', str ''product:price:amount'')]
      = None"
    by code_simp
  have b: "select_one_attr doc_one_price (str ''itemprop'') (str ''price'') = None" by code_simp
  have c: "find doc_one_price (str ''meta'') [(str ''property'', str ''og:price:amount'')] = None"
    by code_simp
  have d: "find doc_one_price (str ''meta'') [(str ''property'',
      str ''product:sale_price:amount'')] = None"
    by code_simp
  have t: "get_text doc_one_price (str '' '') True = str ''Total: '' @ str ''R$ 1.234,56''
      @ str '' hoje''"
    by code_simp
  have n: "list_all (\<lambda>i. \<not> matches_at BR_PRICE_RE (get_text doc_one_price (str '' '') True) i)
      [0..<length (str ''Total: '')]"
    by code_simp
  from first_price_in_text [OF a b c d t n] a b c d t n show ?thesis
    by (simp only: simp_thms)
qed

subsection \<open>The entry point\<close>




subsection \<open>The round trip\<close>

lemma float_12_34:
  "float_of_rat False (617 / 50) = Finite False (3473401212609495 / 281474976710656)"
  by (rule float_of_rat_eval [where k = 3 and m = 6946802425218990])
     (code_simp | simp add: pow2_def)+

lemma py_float_12_34: "py_float (str ''12.34'') = Inr (float_of_rat False (617 / 50))"
  by (rule py_float_eval [where ds = "str ''1234''" and k = 2 and e = 0 and r = "[]"
        and body = "str ''12.34''"]) code_simp+

lemma cents_12_34: "cents (3473401212609495 / 281474976710656) = 1234"
  by code_simp

lemma two_decimals_12_34:
  "nonneg_two_decimals (Finite False (3473401212609495 / 281474976710656))"
  by (simp add: cents_12_34 float_12_34)

lemma float_1234_56_normal:
  "float_of_rat False (30864 / 25) = Finite False (2714826150374277 / 2199023255552)"
  using float_1234_56 by simp

lemma cents_1234_56: "cents (2714826150374277 / 2199023255552) = 123456"
  by code_simp

lemma two_decimals_1234_56:
  "nonneg_two_decimals (Finite False (2714826150374277 / 2199023255552))"
  by (simp add: cents_1234_56 float_1234_56_normal)

lemma float_minus_12_25: "float_of_rat True (1225 / 100) = Finite True (49 / 4)"
  by (rule float_of_rat_eval [where k = 3 and m = "49 * 2 ^ 47"])
     (code_simp | simp add: pow2_def)+

lemma fmt_minus_12_25: "fmt_brl (Finite True (49 / 4)) = str ''R$ -12,25''"
  by code_simp

lemma search_minus_12_25: "search BR_PRICE_RE (str ''R$ -12,25'') = None"
  by code_simp

lemma search_minus_5: "search BR_PRICE_RE (str ''R$ -5,00'') = None"
  by code_simp

lemma search_0_12: "search BR_PRICE_RE (str ''R$ 0,12'') = Some (str ''R$ 0,12'')"
  by code_simp

lemma number_of_0_12:
  "replace (str '','') (str ''.'') (replace (str ''.'') [] (strip (replace (str ''R$'') []
      (str ''R$ 0,12'')))) = str ''0.12''"
  by code_simp

text \<open>
  Claim C5, as stated, fails: \<^verbatim>\<open>-12.25\<close> is a float with two decimal digits, its
  formatted text is \<^verbatim>\<open>R$ -12,25\<close>, and the pattern of the parser has no sign, so that
  the text reads back as absent.
\<close>

theorem round_trip_negative_counterexample:
  "float_of_rat True (1225 / 100) = Finite True (49 / 4)
   \<and> fmt_brl (Finite True (49 / 4)) = str ''R$ -12,25''
   \<and> parse_brl_price_text_to_float (fmt_brl (Finite True (49 / 4))) = Inr None"
proof -
  have "parse_brl_price_text_to_float (str ''R$ -12,25'') = Inr None"
    by (simp add: parse_brl_price_text_to_float_def search_minus_12_25 del: search.simps)
  then show ?thesis
    by (simp only: float_minus_12_25 fmt_minus_12_25)
qed

text \<open>
  Claim C5, amended. For every float \<open>v\<close> with two decimal digits that is not negative,
  reading the formatted text of \<open>v\<close> back gives \<open>v\<close>. The float of every amount of
  \<open>c\<close> hundredths below \<open>pow2 46\<close> is such a float.
\<close>

theorem round_trip_nonneg:
  "(nonneg_two_decimals v \<longrightarrow> parse_brl_price_text_to_float (fmt_brl v) = Inr (Some v))
   \<and> (0 \<le> c \<and> of_int c / 100 < pow2 46 \<longrightarrow>
        parse_brl_price_text_to_float (fmt_brl (float_of_rat False (of_int c / 100)))
          = Inr (Some (float_of_rat False (of_int c / 100))))"
  using parse_fmt_two_decimals [of v]
    parse_fmt_two_decimals [OF two_decimals_float_of_cents [of c]]
  by blast

text \<open>The float \<^verbatim>\<open>1234.56\<close>, which is the float of 123456 hundredths.\<close>

theorem round_trip_nonneg_witness:
  "nonneg_two_decimals (Finite False (2714826150374277 / 2199023255552))
   \<and> fmt_brl (Finite False (2714826150374277 / 2199023255552)) = str ''R$ 1.234,56''
   \<and> parse_brl_price_text_to_float (fmt_brl (Finite False (2714826150374277 / 2199023255552)))
       = Inr (Some (Finite False (2714826150374277 / 2199023255552)))
   \<and> (0::int) \<le> 123456 \<and> of_int 123456 / 100 < pow2 46
   \<and> float_of_rat False (of_int 123456 / 100) = Finite False (2714826150374277 / 2199023255552)
   \<and> parse_brl_price_text_to_float (fmt_brl (float_of_rat False (of_int 123456 / 100)))
       = Inr (Some (float_of_rat False (of_int 123456 / 100)))"
proof -
  have b: "(0::int) \<le> 123456 \<and> of_int 123456 / 100 < pow2 46"
    by (simp add: pow2_def)
  have f: "float_of_rat False (of_int 123456 / 100)
      = Finite False (2714826150374277 / 2199023255552)"
    using float_1234_56 by simp
  from round_trip_nonneg [of "Finite False (2714826150374277 / 2199023255552)" 123456]
    two_decimals_1234_56 b
  have "parse_brl_price_text_to_float (fmt_brl (Finite False (2714826150374277 / 2199023255552)))
       = Inr (Some (Finite False (2714826150374277 / 2199023255552)))"
    and "parse_brl_price_text_to_float (fmt_brl (float_of_rat False (of_int 123456 / 100)))
       = Inr (Some (float_of_rat False (of_int 123456 / 100)))"
    by blast+
  with two_decimals_1234_56 fmt_1234_56 b f show ?thesis
    by (simp only: simp_thms)
qed

subsection \<open>Price value and price text\<close>

text \<open>
  Claim C4, as stated, fails in its second half: for a negative amount the price text
  reads back as absent, and for an amount with three decimals it reads back as another
  float.
\<close>

theorem price_text_parse_counterexample:
  "extract_price_and_currency doc_meta_negative
     = Inr (Some (str ''R$ -5,00''), Some (Finite True 5), Some (str ''BRL''),
            Some (str ''meta[property='' @ quoted (str ''product:price:amount'') @ str '']''))
   \<and> parse_brl_price_text_to_float (str ''R$ -5,00'') = Inr None
   \<and> extract_price_and_currency doc_meta_eighth
     = Inr (Some (str ''R$ 0,12''), Some (Finite False (1 / 8)), Some (str ''BRL''),
            Some (str ''meta[property='' @ quoted (str ''product:price:amount'') @ str '']''))
   \<and> parse_brl_price_text_to_float (str ''R$ 0,12'')
     = Inr (Some (Finite False (1080863910568919 / 9007199254740992)))
   \<and> \<not> float_eq (Finite False (1 / 8)) (Finite False (1080863910568919 / 9007199254740992))"
proof -
  have fn: "find doc_meta_negative (str ''meta'') [(str ''property'',
      str ''product:price:amount'')]
     = Some (meta_tag (str ''product:price:amount'') (str ''-5''))" by code_simp
  have gn: "get (meta_tag (str ''product:price:amount'') (str ''-5'')) (str ''content'')
      = Some (str ''-5'')" by code_simp
  have rn: "replace (str '','') (str ''.'') (str ''-5'') = str ''-5''" by code_simp
  have cn: "meta_currency doc_meta_negative (str ''product:price:currency'') = str ''BRL''"
      by code_simp
  have 1: "extract_price_and_currency doc_meta_negative
     = Inr (Some (str ''R$ -5,00''), Some (Finite True 5), Some (str ''BRL''),
            Some (str ''meta[property='' @ quoted (str ''product:price:amount'') @ str '']''))"
    by (simp add: extract_price_and_currency_def price_meta_amount_def fn gn rn
        py_float_minus_5_val fmt_minus_5 cn quoted_def del: replace.simps)
  have 2: "parse_brl_price_text_to_float (str ''R$ -5,00'') = Inr None"
    by (simp add: parse_brl_price_text_to_float_def search_minus_5 del: search.simps)
  have fe: "find doc_meta_eighth (str ''meta'') [(str ''property'', str ''product:price:amount'')]
     = Some (meta_tag (str ''product:price:amount'') (str ''0.125''))" by code_simp
  have ge: "get (meta_tag (str ''product:price:amount'') (str ''0.125'')) (str ''content'')
      = Some (str ''0.125'')"
    by code_simp
  have re: "replace (str '','') (str ''.'') (str ''0.125'') = str ''0.125''" by code_simp
  have ce: "meta_currency doc_meta_eighth (str ''product:price:currency'') = str ''BRL''"
      by code_simp
  have 3: "extract_price_and_currency doc_meta_eighth
     = Inr (Some (str ''R$ 0,12''), Some (Finite False (1 / 8)), Some (str ''BRL''),
            Some (str ''meta[property='' @ quoted (str ''product:price:amount'') @ str '']''))"
    by (simp add: extract_price_and_currency_def price_meta_amount_def fe ge re
        py_float_0_125_val fmt_0_125 ce quoted_def del: replace.simps)
  have 4: "parse_brl_price_text_to_float (str ''R$ 0,12'')
     = Inr (Some (Finite False (1080863910568919 / 9007199254740992)))"
    by (simp add: parse_brl_price_text_to_float_def search_0_12 number_of_0_12
        py_float_0_12_val del: replace.simps search.simps)
  have 5: "\<not> float_eq (Finite False (1 / 8)) (Finite False (1080863910568919 / 9007199254740992))"
    by simp
  from 1 2 3 4 5 show ?thesis by (simp only: simp_thms)
qed

text \<open>
  Claim C4, amended. In every result of price extraction the price value is present
  exactly if the price text is; and when the value is a float with two decimal digits
  that is not negative, the price text reads back as that value.
\<close>

theorem price_value_and_text:
  assumes "extract_price_and_currency soup = Inr (pt, pv, c, h)"
  shows "(pv \<noteq> None \<longleftrightarrow> pt \<noteq> None)
       \<and> (\<forall>v. pv = Some v \<and> nonneg_two_decimals v \<longrightarrow>
            (\<exists>t. pt = Some t \<and> parse_brl_price_text_to_float t = Inr (Some v)))"
proof -
  from extract_price_shape [OF assms]
  have "(pt, pv, c, h) = (None, None, None, None) \<or> priced (pt, pv, c, h)" .
  then show ?thesis
  proof
    assume "(pt, pv, c, h) = (None, None, None, None)"
    then show ?thesis by simp
  next
    assume p: "priced (pt, pv, c, h)"
    then obtain v where v: "pv = Some v" "pt = Some (fmt_brl v)"
      by (cases pv) auto
    then show ?thesis
      by (auto simp: parse_fmt_two_decimals)
  qed
qed

text \<open>The amount \<^verbatim>\<open>12.34\<close> in the meta tag.\<close>

theorem price_value_and_text_witness:
  "extract_price_and_currency doc_meta_12_34
     = Inr (Some (str ''R$ 12,34''), Some (Finite False (3473401212609495 / 281474976710656)),
            Some (str ''BRL''), Some (str ''meta[property=''
                @ quoted (str ''product:price:amount'') @ str '']''))
   \<and> nonneg_two_decimals (Finite False (3473401212609495 / 281474976710656))
   \<and> parse_brl_price_text_to_float (str ''R$ 12,34'')
       = Inr (Some (Finite False (3473401212609495 / 281474976710656)))"
proof -
  have f: "find doc_meta_12_34 (str ''meta'') [(str ''property'', str ''product:price:amount'')]
     = Some (meta_tag (str ''product:price:amount'') (str ''12.34''))" by code_simp
  have g: "get (meta_tag (str ''product:price:amount'') (str ''12.34'')) (str ''content'')
      = Some (str ''12.34'')"
    by code_simp
  have r: "replace (str '','') (str ''.'') (str ''12.34'') = str ''12.34''" by code_simp
  have c: "meta_currency doc_meta_12_34 (str ''product:price:currency'') = str ''BRL''"
      by code_simp
  have t: "fmt_brl (Finite False (3473401212609495 / 281474976710656)) = str ''R$ 12,34''"
    by code_simp
  have e: "extract_price_and_currency doc_meta_12_34
     = Inr (Some (str ''R$ 12,34''), Some (Finite False (3473401212609495 / 281474976710656)),
            Some (str ''BRL''), Some (str ''meta[property=''
                @ quoted (str ''product:price:amount'') @ str '']''))"
    by (simp add: extract_price_and_currency_def price_meta_amount_def f g r
        py_float_12_34 float_12_34 t c quoted_def del: replace.simps)
  from price_value_and_text [OF e] two_decimals_12_34 e show ?thesis
    by auto
qed

end
